theory Spec2Isabelle
  imports Complex_Main "HOL-Library.AList"
begin

section \<open>Data model (core/schemas.py)\<close>

text \<open>
  Python floats are modelled as the real numbers they approximate, Python ints as
  \<open>int\<close>, and a \<open>dict\<close> as an association list in insertion order:
  \<open>k in d\<close> is \<open>map_of d k \<noteq> None\<close>, \<open>d[k] = v\<close> is \<open>AList.update k v d\<close> (an
  existing key keeps its place, a new key goes to the end), \<open>del d[k]\<close> is
  \<open>AList.delete k d\<close> and \<open>d.values()\<close> is \<open>map snd d\<close>.
  A \<open>datetime\<close> is an abstract tick count. A function keeps the name of the method it
  embeds, without the leading underscore; where two classes share a method name the class
  name is put in front. A method that changes \<open>self\<close> takes the object and returns it
  changed, beside its result when it has one.
\<close>

datatype OrderSide = BUY | SELL

datatype OrderStatus = PENDING | APPROVED | REJECTED | EXECUTED | CANCELLED

datatype py_error = ZeroDivisionError | ValidationError | ValueError | TaskException

type_synonym datetime = nat

text \<open>
  The reason of a risk decision. A reason without interpolation is its literal text; an
  f-string with formatted numbers is a constructor carrying the numbers it formats:
  \<open>OrderValueExceeds v m\<close> is "Order value $v exceeds max position size $m",
  \<open>InsufficientCash v c\<close> is "Insufficient cash: need $v, have $c",
  \<open>InsufficientShares q h\<close> is "Insufficient shares: trying to sell q, have h" and
  \<open>RiskLimitExceeded e m\<close> is "Portfolio risk limit exceeded: $e > $m".
\<close>

datatype reason =
    Literal string
  | OrderValueExceeds real real
  | InsufficientCash real real
  | InsufficientShares int int
  | RiskLimitExceeded real real

record Order =
  id' :: string
  timestamp :: datetime
  trader_id :: string
  symbol :: string
  side :: OrderSide
  quantity :: int
  price :: "real option"
  status :: OrderStatus
  signal_id :: "string option"
  rejection_reason :: "reason option"

record Trade =
  id' :: string
  timestamp :: datetime
  order_id :: string
  symbol :: string
  side :: OrderSide
  quantity :: int
  execution_price :: real
  commission :: real
  trader_id :: string

record Position =
  symbol :: string
  quantity :: int
  avg_cost :: real
  current_price :: real
  unrealized_pnl :: real

text \<open>\<open>Position.update_price\<close>: store the quote and recompute the unrealized PnL.\<close>

definition Position_update_price :: "Position \<Rightarrow> real \<Rightarrow> Position" where
  "Position_update_price pos new_price =
     pos\<lparr>current_price := new_price,
         unrealized_pnl := (new_price - avg_cost pos) * real_of_int (Position.quantity pos)\<rparr>"

section \<open>The portfolio ledger (core/portfolio.py)\<close>

record Portfolio =
  initial_cash :: real
  cash :: real
  positions :: "(string \<times> Position) list"
  realized_pnl :: real
  trades_history :: "Trade list"

definition Portfolio_init :: "real \<Rightarrow> Portfolio" where
  "Portfolio_init c =
     \<lparr>initial_cash = c, cash = c, positions = [], realized_pnl = 0, trades_history = []\<rparr>"

definition update_price :: "Portfolio \<Rightarrow> string \<Rightarrow> real \<Rightarrow> Portfolio" where
  "update_price p smb cp =
     (case map_of (positions p) smb of
        None \<Rightarrow> p
      | Some pos \<Rightarrow> p\<lparr>positions := AList.update smb (Position_update_price pos cp) (positions p)\<rparr>)"

fun update_all_prices :: "Portfolio \<Rightarrow> (string \<times> real) list \<Rightarrow> Portfolio" where
  "update_all_prices p [] = p"
| "update_all_prices p ((smb, cp) # prices) = update_all_prices (update_price p smb cp) prices"

text \<open>
  \<open>_execute_buy\<close>. The raise of the source is a branch: the division by the new quantity
  raises \<open>ZeroDivisionError\<close> after cash and the position's quantity were already changed,
  and building a \<open>Position\<close> whose price is not positive fails pydantic's validation after
  cash was changed. \<open>execute_trade\<close> catches both and returns \<open>False\<close>.
\<close>

definition execute_buy :: "Portfolio \<Rightarrow> Trade \<Rightarrow> (py_error + bool) \<times> Portfolio" where
  "execute_buy p t =
     (let total_cost = execution_price t * real_of_int (Trade.quantity t) + commission t in
      if total_cost > cash p then (Inr False, p)
      else
        let p1 = p\<lparr>cash := cash p - total_cost\<rparr> in
        (case map_of (positions p1) (Trade.symbol t) of
           Some pos \<Rightarrow>
             let total_cost_basis = avg_cost pos * real_of_int (Position.quantity pos)
                                    + execution_price t * real_of_int (Trade.quantity t);
                 pos1 = pos\<lparr>Position.quantity := Position.quantity pos + Trade.quantity t\<rparr>
             in
             if Position.quantity pos1 = 0
             then (Inl ZeroDivisionError,
                   p1\<lparr>positions := AList.update (Trade.symbol t) pos1 (positions p1)\<rparr>)
             else
               let pos2 = pos1\<lparr>avg_cost := total_cost_basis / real_of_int (Position.quantity pos1)\<rparr>;
                   pos3 = pos2\<lparr>current_price := execution_price t\<rparr>;
                   pos4 = pos3\<lparr>unrealized_pnl := (current_price pos3 - avg_cost pos3)
                                                     * real_of_int (Position.quantity pos3)\<rparr>
               in (Inr True,
                   p1\<lparr>positions := AList.update (Trade.symbol t) pos4 (positions p1),
                      trades_history := trades_history p1 @ [t]\<rparr>)
         | None \<Rightarrow>
             if execution_price t \<le> 0 then (Inl ValidationError, p1)
             else (Inr True,
                   p1\<lparr>positions := AList.update (Trade.symbol t)
                                       \<lparr>Position.symbol = Trade.symbol t,
                                        Position.quantity = Trade.quantity t,
                                        avg_cost = execution_price t,
                                        current_price = execution_price t,
                                        unrealized_pnl = 0\<rparr> (positions p1),
                      trades_history := trades_history p1 @ [t]\<rparr>)))"

definition execute_sell :: "Portfolio \<Rightarrow> Trade \<Rightarrow> bool \<times> Portfolio" where
  "execute_sell p t =
     (case map_of (positions p) (Trade.symbol t) of
        None \<Rightarrow> (False, p)
      | Some pos \<Rightarrow>
          if Trade.quantity t > Position.quantity pos then (False, p)
          else
            let proceeds = execution_price t * real_of_int (Trade.quantity t) - commission t;
                pnl = (execution_price t - avg_cost pos) * real_of_int (Trade.quantity t);
                p1 = p\<lparr>cash := cash p + proceeds, realized_pnl := realized_pnl p + pnl\<rparr>;
                pos1 = pos\<lparr>Position.quantity := Position.quantity pos - Trade.quantity t\<rparr>;
                ps = (if Position.quantity pos1 = 0
                      then AList.delete (Trade.symbol t) (positions p1)
                      else
                        let pos2 = pos1\<lparr>current_price := execution_price t\<rparr>;
                            pos3 = pos2\<lparr>unrealized_pnl := (current_price pos2 - avg_cost pos2)
                                                              * real_of_int (Position.quantity pos2)\<rparr>
                        in AList.update (Trade.symbol t) pos3 (positions p1))
            in (True, p1\<lparr>positions := ps, trades_history := trades_history p1 @ [t]\<rparr>))"

definition execute_trade :: "Portfolio \<Rightarrow> Trade \<Rightarrow> bool \<times> Portfolio" where
  "execute_trade p t =
     (case Trade.side t of
        BUY \<Rightarrow> (case execute_buy p t of
                  (Inl e, p') \<Rightarrow> (False, p')
                | (Inr b, p') \<Rightarrow> (b, p'))
      | SELL \<Rightarrow> execute_sell p t)"

definition positions_value :: "Portfolio \<Rightarrow> real" where
  "positions_value p =
     sum_list (map (\<lambda>pos. real_of_int (Position.quantity pos) * current_price pos)
                   (map snd (positions p)))"

text \<open>
  \<open>get_total_value\<close> returns the value and the portfolio as the call leaves it: a non-empty
  dict of quotes is first written into the positions (\<open>if current_prices:\<close> is false for
  \<open>None\<close> and for the empty dict).
\<close>

definition get_total_value :: "Portfolio \<Rightarrow> (string \<times> real) list option \<Rightarrow> real \<times> Portfolio" where
  "get_total_value p current_prices =
     (let p' = (case current_prices of
                  None \<Rightarrow> p
                | Some prices \<Rightarrow> if prices \<noteq> [] then update_all_prices p prices else p)
      in (cash p' + positions_value p', p'))"

definition get_unrealized_pnl :: "Portfolio \<Rightarrow> real" where
  "get_unrealized_pnl p = sum_list (map unrealized_pnl (map snd (positions p)))"

definition get_total_pnl :: "Portfolio \<Rightarrow> real" where
  "get_total_pnl p = realized_pnl p + get_unrealized_pnl p"

record Summary =
  s_cash :: real
  s_positions_count :: nat
  s_positions_value :: real
  s_total_value :: real
  s_realized_pnl :: real
  s_unrealized_pnl :: real
  s_total_pnl :: real
  s_total_return_pct :: real
  s_trades_count :: nat

text \<open>
  \<open>get_summary\<close>: the division by \<open>initial_cash\<close> raises when it is zero; the portfolio
  as the call leaves it is returned beside the result.
\<close>

definition get_summary :: "Portfolio \<Rightarrow> (py_error + Summary) \<times> Portfolio" where
  "get_summary p =
     (case get_total_value p None of
        (total_value, p') \<Rightarrow>
          if initial_cash p' = 0 then (Inl ZeroDivisionError, p')
          else (Inr \<lparr>s_cash = cash p',
                     s_positions_count = length (positions p'),
                     s_positions_value = positions_value p',
                     s_total_value = total_value,
                     s_realized_pnl = realized_pnl p',
                     s_unrealized_pnl = get_unrealized_pnl p',
                     s_total_pnl = get_total_pnl p',
                     s_total_return_pct = ((total_value - initial_cash p') / initial_cash p') * 100,
                     s_trades_count = length (trades_history p')\<rparr>, p'))"

section \<open>Messages and the in-process bus (core/message_bus.py)\<close>

text \<open>
  A message is a dict with a \<open>type\<close> key; each constructor is one value of that key and
  carries the other keys in the order the source writes them. A key read with a default
  (\<open>approved\<close>, \<open>reason\<close>, \<open>commission\<close>) is optional. Wall-clock stamps
  (\<open>datetime.utcnow()\<close>) are left out.
  \<^item> \<open>market_update timestamp symbol open high low close volume\<close>
  \<^item> \<open>order_request order_id trader_id symbol side quantity price signal_id\<close>
  \<^item> \<open>risk_decision order_id approved reason\<close>
  \<^item> \<open>order_approved order_id trader_id symbol side quantity price\<close>
  \<^item> \<open>trade_executed trade_id order_id symbol side quantity execution_price commission
     timestamp trader_id\<close>
  \<^item> \<open>stop_loss trader_id symbol quantity avg_cost current_price loss_percent\<close>
\<close>

datatype message =
    market_update datetime string real real real real int
  | order_request string string string string int "real option" "string option"
  | risk_decision string "bool option" "reason option"
  | order_approved string string string string int "real option"
  | trade_executed string string string string int real "real option" datetime string
  | stop_loss string string int real real real
  | other_message string

fun side_value :: "OrderSide \<Rightarrow> string" where
  "side_value BUY = ''BUY''"
| "side_value SELL = ''SELL''"

text \<open>
  \<open>LocalMessageBus\<close>: the subscriber registry (channel to the names of its callbacks) and
  the queue of published messages, oldest first.
\<close>

record LocalMessageBus =
  channels :: "(string \<times> string list) list"
  queue :: "(string \<times> message) list"

definition bus_publish :: "LocalMessageBus \<Rightarrow> string \<Rightarrow> message \<Rightarrow> LocalMessageBus" where
  "bus_publish bus channel m = bus\<lparr>queue := queue bus @ [(channel, m)]\<rparr>"

definition bus_subscribe :: "LocalMessageBus \<Rightarrow> string \<Rightarrow> string \<Rightarrow> LocalMessageBus" where
  "bus_subscribe bus channel callback =
     (let bus1 = (if map_of (channels bus) channel = None
                  then bus\<lparr>channels := AList.update channel [] (channels bus)\<rparr>
                  else bus)
      in (case map_of (channels bus1) channel of
            None \<Rightarrow> bus1
          | Some cbs \<Rightarrow> bus1\<lparr>channels := AList.update channel (cbs @ [callback]) (channels bus1)\<rparr>))"

section \<open>The execution engine (core/market_environment.py)\<close>

record MarketEnvironment =
  message_bus :: LocalMessageBus
  commission_rate :: real
  current_time :: "datetime option"
  current_prices :: "(string \<times> real) list"
  pending_orders :: "Order list"
  executed_trades :: "Trade list"

text \<open>
  Building a \<open>Trade\<close> runs pydantic's validation: the timestamp must be a datetime, the
  quantity and the execution price positive, the commission not negative.
\<close>

definition Trade_new ::
  "string \<Rightarrow> datetime option \<Rightarrow> string \<Rightarrow> string \<Rightarrow> OrderSide \<Rightarrow> int \<Rightarrow> real \<Rightarrow> real \<Rightarrow> string
   \<Rightarrow> py_error + Trade" where
  "Trade_new i ts oid smb sd q ep c tid =
     (case ts of
        None \<Rightarrow> Inl ValidationError
      | Some ts' \<Rightarrow>
          if q \<le> 0 \<or> ep \<le> 0 \<or> c < 0 then Inl ValidationError
          else Inr \<lparr>Trade.id' = i, Trade.timestamp = ts', order_id = oid, Trade.symbol = smb,
                    Trade.side = sd, Trade.quantity = q, execution_price = ep, commission = c,
                    Trade.trader_id = tid\<rparr>)"

definition trade_message :: "Trade \<Rightarrow> message" where
  "trade_message t =
     trade_executed (Trade.id' t) (order_id t) (Trade.symbol t) (side_value (Trade.side t))
       (Trade.quantity t) (execution_price t) (Some (commission t)) (Trade.timestamp t)
       (Trade.trader_id t)"

definition submit_order :: "MarketEnvironment \<Rightarrow> Order \<Rightarrow> MarketEnvironment" where
  "submit_order env order =
     (if Order.status order \<noteq> APPROVED then env
      else env\<lparr>pending_orders := pending_orders env @ [order]\<rparr>)"

text \<open>
  The loop of \<open>execute_pending_orders\<close> over the copy \<open>self.pending_orders[:]\<close>: the
  second argument is what is left of the copy. \<open>continue\<close> is the recursive call on the
  same state. A raise (the validation of the trade, \<open>list.remove\<close> of an absent order)
  ends the sweep with the state as changed so far.
\<close>

fun sweep_orders :: "MarketEnvironment \<Rightarrow> Order list \<Rightarrow> py_error option \<times> MarketEnvironment" where
  "sweep_orders env [] = (None, env)"
| "sweep_orders env (order # rest) =
     (case map_of (current_prices env) (Order.symbol order) of
        None \<Rightarrow> sweep_orders env rest
      | Some ep \<Rightarrow>
          if (case Order.price order of
                None \<Rightarrow> False
              | Some limit \<Rightarrow> Order.side order = BUY \<and> ep > limit
                             \<or> Order.side order = SELL \<and> ep < limit)
          then sweep_orders env rest
          else
            (case Trade_new (''trade_'' @ Order.id' order) (current_time env) (Order.id' order)
                    (Order.symbol order) (Order.side order) (Order.quantity order) ep
                    (ep * real_of_int (Order.quantity order) * commission_rate env)
                    (Order.trader_id order) of
               Inl e \<Rightarrow> (Some e, env)
             | Inr trade \<Rightarrow>
                 let env1 = env\<lparr>executed_trades := executed_trades env @ [trade]\<rparr> in
                 if order \<notin> set (pending_orders env1) then (Some ValueError, env1)
                 else
                   let env2 = env1\<lparr>pending_orders := remove1 order (pending_orders env1)\<rparr>;
                       env3 = env2\<lparr>message_bus :=
                                      bus_publish (message_bus env2) ''trades'' (trade_message trade)\<rparr>
                   in sweep_orders env3 rest))"

definition execute_pending_orders :: "MarketEnvironment \<Rightarrow> py_error option \<times> MarketEnvironment" where
  "execute_pending_orders env = sweep_orders env (pending_orders env)"

section \<open>The agent lifecycle (agents/base_agent.py)\<close>

text \<open>
  A call of the agent's logger is a record of its level and message; keyword fields are
  left out. An \<open>asyncio.Task\<close> is its status in the store \<open>event_loop\<close> of all tasks the
  agent created, and \<open>_task\<close> is an index into that store.
\<close>

datatype log_record = Debug string | Info string | Warning string | Error string

datatype task_state = Running | Cancelled | Finished | Failed

record BaseAgent =
  agent_id :: string
  message_bus :: LocalMessageBus
  logger :: "log_record list"
  running :: bool
  task :: "nat option"
  event_loop :: "task_state list"

definition BaseAgent_init :: "string \<Rightarrow> LocalMessageBus \<Rightarrow> BaseAgent" where
  "BaseAgent_init aid bus =
     \<lparr>agent_id = aid, BaseAgent.message_bus = bus, logger = [], running = False, task = None,
      event_loop = []\<rparr>"

definition publish :: "'a BaseAgent_scheme \<Rightarrow> string \<Rightarrow> message \<Rightarrow> 'a BaseAgent_scheme" where
  "publish a channel m =
     a\<lparr>BaseAgent.message_bus := bus_publish (BaseAgent.message_bus a) channel m\<rparr>"

definition subscribe :: "'a BaseAgent_scheme \<Rightarrow> string \<Rightarrow> string \<Rightarrow> 'a BaseAgent_scheme" where
  "subscribe a channel callback =
     a\<lparr>BaseAgent.message_bus := bus_subscribe (BaseAgent.message_bus a) channel callback\<rparr>"

text \<open>
  \<open>_setup_subscriptions\<close> is abstract; every subclass is a sequence of \<open>subscribe\<close> calls,
  given here as the list of (channel, callback) it registers.
\<close>

fun setup_subscriptions :: "(string \<times> string) list \<Rightarrow> 'a BaseAgent_scheme \<Rightarrow> 'a BaseAgent_scheme" where
  "setup_subscriptions [] a = a"
| "setup_subscriptions ((channel, callback) # subs) a =
     setup_subscriptions subs (subscribe a channel callback)"

definition start :: "(string \<times> string) list \<Rightarrow> 'a BaseAgent_scheme \<Rightarrow> 'a BaseAgent_scheme" where
  "start subs a =
     (if running a then a\<lparr>logger := logger a @ [Warning ''Agent already running'']\<rparr>
      else
        let a1 = a\<lparr>running := True\<rparr>;
            a2 = setup_subscriptions subs a1;
            a3 = a2\<lparr>task := Some (length (event_loop a2)),
                    event_loop := event_loop a2 @ [Running]\<rparr>
        in a3\<lparr>logger := logger a3 @ [Info (''Agent '' @ agent_id a3 @ '' started'')]\<rparr>)"

text \<open>
  \<open>stop\<close>: \<open>cancel()\<close> changes a task that is still running and no other; awaiting a
  cancelled task raises \<open>CancelledError\<close>, which is swallowed; awaiting a task that ended
  with an exception raises it again, past the final log line. \<open>_task\<close> always points
  into the store; the branch for an index outside it is there to make the function total.
\<close>

definition cancel :: "task_state \<Rightarrow> task_state" where
  "cancel ts = (if ts = Running then Cancelled else ts)"

definition stop :: "'a BaseAgent_scheme \<Rightarrow> py_error option \<times> 'a BaseAgent_scheme" where
  "stop a =
     (let a1 = a\<lparr>running := False\<rparr>;
          stopped = Info (''Agent '' @ agent_id a1 @ '' stopped'')
      in (case task a1 of
            None \<Rightarrow> (None, a1\<lparr>logger := logger a1 @ [stopped]\<rparr>)
          | Some i \<Rightarrow>
              if i < length (event_loop a1) then
                let a2 = a1\<lparr>event_loop := (event_loop a1)[i := cancel (event_loop a1 ! i)]\<rparr> in
                if event_loop a2 ! i = Failed then (Some TaskException, a2)
                else (None, a2\<lparr>logger := logger a2 @ [stopped]\<rparr>)
              else (Some TaskException, a1)))"

definition active_loops :: "'a BaseAgent_scheme \<Rightarrow> nat" where
  "active_loops a = length (filter (\<lambda>ts. ts = Running) (event_loop a))"

section \<open>The risk validator (agents/risk_manager_agent.py)\<close>

text \<open>The dict kept per trader and symbol in \<open>current_positions\<close>.\<close>

record PositionDict =
  trader_id :: string
  symbol :: string
  quantity :: int
  avg_cost :: real

record RiskManagerAgent = BaseAgent +
  initial_portfolio_value :: real
  max_position_size :: real
  stop_loss_percent :: real
  max_portfolio_risk :: real
  current_positions :: "(string \<times> PositionDict) list"
  current_prices :: "(string \<times> real) list"
  trader_cash :: "(string \<times> real) list"
  approved_count :: nat
  rejected_count :: nat

definition RiskManagerAgent_init ::
  "string \<Rightarrow> LocalMessageBus \<Rightarrow> real \<Rightarrow> real \<Rightarrow> real \<Rightarrow> real \<Rightarrow> RiskManagerAgent" where
  "RiskManagerAgent_init aid bus ipv mps slp mpr =
     \<lparr>agent_id = aid, BaseAgent.message_bus = bus, logger = [], running = False, task = None,
      event_loop = [],
      initial_portfolio_value = ipv, max_position_size = mps, stop_loss_percent = slp,
      max_portfolio_risk = mpr, current_positions = [], RiskManagerAgent.current_prices = [],
      trader_cash = [], approved_count = 0, rejected_count = 0\<rparr>"

definition RiskManagerAgent_subscriptions :: "(string \<times> string) list" where
  "RiskManagerAgent_subscriptions =
     [(''orders'', ''_on_order_request''), (''market_data'', ''_on_market_update''),
      (''trades'', ''_on_trade_executed'')]"

definition trader_key :: "string \<Rightarrow> string \<Rightarrow> string" where
  "trader_key tid smb = tid @ ''_'' @ smb"

definition get_trader_cash :: "RiskManagerAgent \<Rightarrow> string \<Rightarrow> real" where
  "get_trader_cash rm tid =
     (case map_of (trader_cash rm) tid of
        None \<Rightarrow> initial_portfolio_value rm / 4
      | Some c \<Rightarrow> c)"

definition RiskManagerAgent_on_market_update :: "RiskManagerAgent \<Rightarrow> message \<Rightarrow> RiskManagerAgent" where
  "RiskManagerAgent_on_market_update rm m =
     (case m of
        market_update ts smb opn hi lo cl vol \<Rightarrow>
          if smb \<noteq> [] \<and> cl \<noteq> 0
          then rm\<lparr>RiskManagerAgent.current_prices :=
                    AList.update smb cl (RiskManagerAgent.current_prices rm)\<rparr>
          else rm
      | _ \<Rightarrow> rm)"

definition total_exposure :: "RiskManagerAgent \<Rightarrow> real" where
  "total_exposure rm =
     sum_list (map (\<lambda>pos. real_of_int (PositionDict.quantity pos)
                           * (case map_of (RiskManagerAgent.current_prices rm) (PositionDict.symbol pos) of
                                None \<Rightarrow> 0
                              | Some cp \<Rightarrow> cp))
                   (map snd (current_positions rm)))"

definition validate_order ::
  "RiskManagerAgent \<Rightarrow> string \<Rightarrow> string \<Rightarrow> string \<Rightarrow> int \<Rightarrow> real option \<Rightarrow> bool \<times> reason" where
  "validate_order rm tid smb sd qty prc =
     (case map_of (RiskManagerAgent.current_prices rm) smb of
        None \<Rightarrow> (False, Literal ''No market data available for symbol'')
      | Some cp \<Rightarrow>
          let order_value = real_of_int qty * cp in
          if order_value > max_position_size rm
          then (False, OrderValueExceeds order_value (max_position_size rm))
          else
            let tc = get_trader_cash rm tid;
                max_allowed_exposure = initial_portfolio_value rm * max_portfolio_risk rm;
                exposure_check =
                  (if sd = ''BUY'' \<and> total_exposure rm + order_value > max_allowed_exposure
                   then (False, RiskLimitExceeded (total_exposure rm + order_value) max_allowed_exposure)
                   else (True, Literal ''Order approved''))
            in
            if sd = ''BUY'' then
              (if order_value > tc then (False, InsufficientCash order_value tc)
               else exposure_check)
            else if sd = ''SELL'' then
              (let current_position =
                     (case map_of (current_positions rm) (trader_key tid smb) of
                        None \<Rightarrow> 0
                      | Some pos \<Rightarrow> PositionDict.quantity pos)
               in if qty > current_position then (False, InsufficientShares qty current_position)
                  else exposure_check)
            else exposure_check)"

definition on_order_request :: "RiskManagerAgent \<Rightarrow> message \<Rightarrow> RiskManagerAgent" where
  "on_order_request rm m =
     (case m of
        order_request oid tid smb sd qty prc sig \<Rightarrow>
          (case validate_order rm tid smb sd qty prc of
             (approved, rsn) \<Rightarrow>
               let rm1 = (if approved
                          then rm\<lparr>approved_count := approved_count rm + 1,
                                  logger := logger rm @ [Info ''Order APPROVED'']\<rparr>
                          else rm\<lparr>rejected_count := rejected_count rm + 1,
                                  logger := logger rm @ [Warning ''Order REJECTED'']\<rparr>)
               in publish rm1 ''risk_decisions'' (risk_decision oid (Some approved) (Some rsn)))
      | _ \<Rightarrow> rm)"

definition RiskManagerAgent_on_trade_executed :: "RiskManagerAgent \<Rightarrow> message \<Rightarrow> RiskManagerAgent" where
  "RiskManagerAgent_on_trade_executed rm m =
     (case m of
        trade_executed trid oid smb sd qty ep comm ts tid \<Rightarrow>
          let c = (case comm of None \<Rightarrow> 0 | Some x \<Rightarrow> x);
              key = trader_key tid smb;
              rm1 = (if map_of (current_positions rm) key = None
                     then rm\<lparr>current_positions :=
                               AList.update key
                                 \<lparr>PositionDict.trader_id = tid, PositionDict.symbol = smb,
                                  PositionDict.quantity = 0, PositionDict.avg_cost = 0\<rparr>
                                 (current_positions rm)\<rparr>
                     else rm)
          in (case map_of (current_positions rm1) key of
                None \<Rightarrow> rm1
              | Some position \<Rightarrow>
                  let rm2 =
                    (if sd = ''BUY'' then
                       let total_cost = real_of_int (PositionDict.quantity position)
                                          * PositionDict.avg_cost position
                                        + real_of_int qty * ep;
                           pos1 = position\<lparr>PositionDict.quantity := PositionDict.quantity position + qty\<rparr>;
                           pos2 = pos1\<lparr>PositionDict.avg_cost :=
                                          (if PositionDict.quantity pos1 > 0
                                           then total_cost / real_of_int (PositionDict.quantity pos1)
                                           else 0)\<rparr>;
                           rm' = rm1\<lparr>current_positions := AList.update key pos2 (current_positions rm1)\<rparr>
                       in rm'\<lparr>trader_cash :=
                                AList.update tid (get_trader_cash rm' tid - (ep * real_of_int qty + c))
                                  (trader_cash rm')\<rparr>
                     else if sd = ''SELL'' then
                       let pos1 = position\<lparr>PositionDict.quantity := PositionDict.quantity position - qty\<rparr>;
                           rm' = rm1\<lparr>current_positions :=
                                       (if PositionDict.quantity pos1 \<le> 0
                                        then AList.delete key (current_positions rm1)
                                        else AList.update key pos1 (current_positions rm1))\<rparr>
                       in rm'\<lparr>trader_cash :=
                                AList.update tid (get_trader_cash rm' tid + (ep * real_of_int qty - c))
                                  (trader_cash rm')\<rparr>
                     else rm1)
                  in rm2\<lparr>logger := logger rm2 @ [Debug ''Position updated'']\<rparr>)
      | _ \<Rightarrow> rm)"

text \<open>
  The loop of \<open>_check_stop_losses\<close> over \<open>list(self.current_positions.items())\<close>. The
  division by \<open>avg_cost\<close> raises when it is zero, which ends the sweep.
\<close>

fun check_positions ::
  "RiskManagerAgent \<Rightarrow> (string \<times> PositionDict) list \<Rightarrow> py_error option \<times> RiskManagerAgent" where
  "check_positions rm [] = (None, rm)"
| "check_positions rm ((key, position) # rest) =
     (case map_of (RiskManagerAgent.current_prices rm) (PositionDict.symbol position) of
        None \<Rightarrow> check_positions rm rest
      | Some cp \<Rightarrow>
          if PositionDict.quantity position \<le> 0 then check_positions rm rest
          else if PositionDict.avg_cost position = 0 then (Some ZeroDivisionError, rm)
          else
            let loss_percent = (PositionDict.avg_cost position - cp) / PositionDict.avg_cost position in
            if loss_percent > stop_loss_percent rm then
              let rm1 = rm\<lparr>logger := logger rm @ [Warning ''STOP LOSS triggered'']\<rparr>;
                  rm2 = publish rm1 ''stop_loss_alerts''
                          (stop_loss (PositionDict.trader_id position) (PositionDict.symbol position)
                             (PositionDict.quantity position) (PositionDict.avg_cost position) cp
                             loss_percent)
              in check_positions rm2 rest
            else check_positions rm rest)"

definition check_stop_losses :: "RiskManagerAgent \<Rightarrow> py_error option \<times> RiskManagerAgent" where
  "check_stop_losses rm = check_positions rm (current_positions rm)"

section \<open>The order placer (agents/trader_agent.py)\<close>

record TraderAgent = BaseAgent +
  symbols :: "string list"
  cash :: real
  max_position_value :: real
  positions :: "(string \<times> int) list"
  current_prices :: "(string \<times> real) list"
  pending_orders :: "Order list"
  order_count :: nat

definition TraderAgent_init ::
  "string \<Rightarrow> LocalMessageBus \<Rightarrow> string list \<Rightarrow> real \<Rightarrow> real \<Rightarrow> TraderAgent" where
  "TraderAgent_init aid bus syms c mpv =
     \<lparr>agent_id = aid, BaseAgent.message_bus = bus, logger = [], running = False, task = None,
      event_loop = [],
      symbols = syms, TraderAgent.cash = c, max_position_value = mpv,
      TraderAgent.positions = fold (\<lambda>s d. AList.update s 0 d) syms [],
      TraderAgent.current_prices = [], TraderAgent.pending_orders = [], order_count = 0\<rparr>"

text \<open>
  \<open>next((o for o in self.pending_orders if o.id == order_id), None)\<close> is the first order
  of the list with that id. The handler changes that \<open>Order\<close> object in place; the model
  writes the changed order back at the object's place in the list. \<open>list.remove\<close> takes
  out the first order equal to its argument.
\<close>

fun replace_first :: "('a \<Rightarrow> bool) \<Rightarrow> 'a \<Rightarrow> 'a list \<Rightarrow> 'a list" where
  "replace_first P y [] = []"
| "replace_first P y (x # xs) = (if P x then y # xs else x # replace_first P y xs)"

text \<open>
  \<open>_on_risk_decision\<close> returns, beside the trader, the \<open>Order\<close> object it decided as the
  handler leaves it (\<open>None\<close> when it returned early): a rejected order is no longer in
  \<open>pending_orders\<close>, so its new status is visible only on the object.
\<close>

definition on_risk_decision :: "TraderAgent \<Rightarrow> message \<Rightarrow> Order option \<times> TraderAgent" where
  "on_risk_decision tr m =
     (case m of
        risk_decision oid approved_opt reason_opt \<Rightarrow>
          let approved = (case approved_opt of None \<Rightarrow> False | Some b \<Rightarrow> b) in
          (case find (\<lambda>ord. Order.id' ord = oid) (TraderAgent.pending_orders tr) of
             None \<Rightarrow> (None, tr)
           | Some matching_order \<Rightarrow>
               if approved then
                 let o1 = matching_order\<lparr>status := APPROVED\<rparr>;
                     tr1 = tr\<lparr>TraderAgent.pending_orders :=
                                replace_first (\<lambda>ord. Order.id' ord = oid) o1 (TraderAgent.pending_orders tr)\<rparr>;
                     tr2 = publish tr1 ''approved_orders''
                             (order_approved (Order.id' o1) (Order.trader_id o1) (Order.symbol o1)
                                (side_value (Order.side o1)) (Order.quantity o1) (Order.price o1))
                 in (Some o1, tr2\<lparr>logger := logger tr2 @ [Info ''Order approved'']\<rparr>)
               else
                 let o1 = matching_order\<lparr>status := REJECTED\<rparr>;
                     o2 = o1\<lparr>rejection_reason :=
                               Some (case reason_opt of None \<Rightarrow> Literal ''Unknown'' | Some r \<Rightarrow> r)\<rparr>;
                     tr1 = tr\<lparr>TraderAgent.pending_orders :=
                                remove1 o2 (replace_first (\<lambda>ord. Order.id' ord = oid) o2
                                              (TraderAgent.pending_orders tr))\<rparr>
                 in (Some o2, tr1\<lparr>logger := logger tr1 @ [Warning ''Order rejected'']\<rparr>))
      | _ \<Rightarrow> (None, tr))"

definition TraderAgent_on_trade_executed :: "TraderAgent \<Rightarrow> message \<Rightarrow> Order option \<times> TraderAgent" where
  "TraderAgent_on_trade_executed tr m =
     (case m of
        trade_executed trid oid smb sd qty ep comm ts tid \<Rightarrow>
          (case find (\<lambda>ord. Order.id' ord = oid) (TraderAgent.pending_orders tr) of
             None \<Rightarrow> (None, tr)
           | Some matching_order \<Rightarrow>
               let c = (case comm of None \<Rightarrow> 0 | Some x \<Rightarrow> x);
                   held = (case map_of (TraderAgent.positions tr) smb of None \<Rightarrow> 0 | Some q \<Rightarrow> q);
                   tr1 = (if sd = ''BUY''
                          then tr\<lparr>TraderAgent.positions :=
                                    AList.update smb (held + qty) (TraderAgent.positions tr),
                                  TraderAgent.cash := TraderAgent.cash tr - (ep * real_of_int qty + c)\<rparr>
                          else if sd = ''SELL''
                          then tr\<lparr>TraderAgent.positions :=
                                    AList.update smb (held - qty) (TraderAgent.positions tr),
                                  TraderAgent.cash := TraderAgent.cash tr + (ep * real_of_int qty - c)\<rparr>
                          else tr);
                   tr2 = tr1\<lparr>TraderAgent.pending_orders :=
                               remove1 matching_order (TraderAgent.pending_orders tr1)\<rparr>
               in (Some matching_order, tr2\<lparr>logger := logger tr2 @ [Info ''Trade executed'']\<rparr>))
      | _ \<Rightarrow> (None, tr))"

text \<open>
  The statuses one order object takes while the trader handles a sequence of messages on
  \<open>risk_decisions\<close>: one entry per message that decided an order.
\<close>

fun decided_statuses :: "TraderAgent \<Rightarrow> message list \<Rightarrow> OrderStatus list" where
  "decided_statuses tr [] = []"
| "decided_statuses tr (m # ms) =
     (case on_risk_decision tr m of
        (None, tr') \<Rightarrow> decided_statuses tr' ms
      | (Some ord, tr') \<Rightarrow> Order.status ord # decided_statuses tr' ms)"

text \<open>The edges of the status machine as the data model states them.\<close>

fun status_edge :: "OrderStatus \<Rightarrow> OrderStatus \<Rightarrow> bool" where
  "status_edge PENDING APPROVED = True"
| "status_edge PENDING REJECTED = True"
| "status_edge APPROVED EXECUTED = True"
| "status_edge APPROVED CANCELLED = True"
| "status_edge _ _ = False"

section \<open>Notions used in the statements\<close>

text \<open>The cost basis of the open positions and the commissions of the applied fills.\<close>

definition cost_basis :: "Portfolio \<Rightarrow> real" where
  "cost_basis p =
     sum_list (map (\<lambda>pos. real_of_int (Position.quantity pos) * Position.avg_cost pos)
                   (map snd (Portfolio.positions p)))"

definition commissions_paid :: "Portfolio \<Rightarrow> real" where
  "commissions_paid p = sum_list (map commission (trades_history p))"

text \<open>A sequence of fills, each passed to \<open>execute_trade\<close> on the ledger the last one left.\<close>

fun apply_fills :: "Portfolio \<Rightarrow> Trade list \<Rightarrow> Portfolio" where
  "apply_fills p [] = p"
| "apply_fills p (t # ts) = apply_fills (snd (execute_trade p t)) ts"

text \<open>
  What every ledger built by fills satisfies: distinct symbols, open positions of positive
  quantity whose stored unrealized PnL is that of the stored price, and cash plus cost
  basis equal to the initial cash plus the realized PnL minus the commissions.
\<close>

definition position_ok :: "Position \<Rightarrow> bool" where
  "position_ok pos \<longleftrightarrow>
     0 < Position.quantity pos \<and>
     unrealized_pnl pos
       = (current_price pos - Position.avg_cost pos) * real_of_int (Position.quantity pos)"

definition ledger_inv :: "Portfolio \<Rightarrow> bool" where
  "ledger_inv p \<longleftrightarrow>
     distinct (map fst (Portfolio.positions p)) \<and>
     list_all position_ok (map snd (Portfolio.positions p)) \<and>
     Portfolio.cash p + cost_basis p = initial_cash p + realized_pnl p - commissions_paid p"







text \<open>
  The shadow state is rebuilt from the broadcasts alone: a message goes to the handler
  that \<open>_setup_subscriptions\<close> registers for its channel. A trade broadcast comes from a
  validated \<open>Trade\<close>: its side is BUY or SELL, its quantity and price are positive.
\<close>

fun RiskManagerAgent_deliver :: "RiskManagerAgent \<Rightarrow> string \<times> message \<Rightarrow> RiskManagerAgent" where
  "RiskManagerAgent_deliver rm (channel, m) =
     (if channel = ''orders'' then on_order_request rm m
      else if channel = ''market_data'' then RiskManagerAgent_on_market_update rm m
      else if channel = ''trades'' then RiskManagerAgent_on_trade_executed rm m
      else rm)"

fun broadcast_ok :: "message \<Rightarrow> bool" where
  "broadcast_ok (trade_executed trid oid smb sd qty ep comm ts tid) =
     ((sd = ''BUY'' \<or> sd = ''SELL'') \<and> 0 < qty \<and> 0 < ep)"
| "broadcast_ok _ = True"

text \<open>
  The alerts of one stop-loss sweep as the specification states them: one for every
  shadowed position whose symbol has a known price and whose loss
  \<open>(avg_cost - current_price) / avg_cost\<close> exceeds the threshold, with the position's detail.
\<close>

definition position_alert :: "(string \<times> real) list \<Rightarrow> real \<Rightarrow> PositionDict \<Rightarrow> message option" where
  "position_alert prices threshold pos =
     (case map_of prices (PositionDict.symbol pos) of
        None \<Rightarrow> None
      | Some cp \<Rightarrow>
          if (PositionDict.avg_cost pos - cp) / PositionDict.avg_cost pos > threshold
          then Some (stop_loss (PositionDict.trader_id pos) (PositionDict.symbol pos)
                       (PositionDict.quantity pos) (PositionDict.avg_cost pos) cp
                       ((PositionDict.avg_cost pos - cp) / PositionDict.avg_cost pos))
          else None)"

definition stop_loss_alerts :: "RiskManagerAgent \<Rightarrow> message list" where
  "stop_loss_alerts rm =
     List.map_filter (position_alert (RiskManagerAgent.current_prices rm) (stop_loss_percent rm))
       (map snd (current_positions rm))"

text \<open>
  The shadowed positions that fills of positive quantity and price produce: positive
  quantity, positive average cost.
\<close>

definition shadow_ok :: "RiskManagerAgent \<Rightarrow> bool" where
  "shadow_ok rm \<longleftrightarrow>
     list_all (\<lambda>pos. 0 < PositionDict.quantity pos \<and> 0 < PositionDict.avg_cost pos)
       (map snd (current_positions rm))"

text \<open>
  The fill of one pending order as the specification states it: none when the symbol has
  no current price or when a limit price is set and a BUY would execute above it or a SELL
  below it; otherwise the trade at the current price with
  \<open>commission = execution_price * quantity * commission_rate\<close>.
\<close>

definition order_fill :: "datetime \<Rightarrow> real \<Rightarrow> (string \<times> real) list \<Rightarrow> Order \<Rightarrow> Trade option" where
  "order_fill now rate prices ord =
     (case map_of prices (Order.symbol ord) of
        None \<Rightarrow> None
      | Some ep \<Rightarrow>
          if (case Order.price ord of
                None \<Rightarrow> False
              | Some limit \<Rightarrow> Order.side ord = BUY \<and> ep > limit
                             \<or> Order.side ord = SELL \<and> ep < limit)
          then None
          else Some \<lparr>Trade.id' = ''trade_'' @ Order.id' ord, Trade.timestamp = now,
                     order_id = Order.id' ord, Trade.symbol = Order.symbol ord,
                     Trade.side = Order.side ord, Trade.quantity = Order.quantity ord,
                     execution_price = ep,
                     commission = ep * real_of_int (Order.quantity ord) * rate,
                     Trade.trader_id = Order.trader_id ord\<rparr>)"

text \<open>
  The broadcast of a fill as the interface lists it: the message of type
  \<open>trade_executed\<close> on \<open>trades\<close> with the trade's id, order id, symbol, side (the text
  "BUY" or "SELL"), quantity, execution price, commission, timestamp and trader id.
\<close>

definition fill_broadcast :: "Trade \<Rightarrow> string \<times> message" where
  "fill_broadcast t =
     (''trades'',
      trade_executed (Trade.id' t) (order_id t) (Trade.symbol t)
        (case Trade.side t of BUY \<Rightarrow> ''BUY'' | SELL \<Rightarrow> ''SELL'')
        (Trade.quantity t) (execution_price t) (Some (commission t)) (Trade.timestamp t)
        (Trade.trader_id t))"

subsection \<open>Concrete inputs\<close>

definition ex_trade :: "OrderSide \<Rightarrow> int \<Rightarrow> real \<Rightarrow> real \<Rightarrow> Trade" where
  "ex_trade sd q ep c =
     \<lparr>Trade.id' = ''trade_o1'', Trade.timestamp = 0, order_id = ''o1'', Trade.symbol = ''AAPL'',
      Trade.side = sd, Trade.quantity = q, execution_price = ep, commission = c,
      Trade.trader_id = ''trader_1''\<rparr>"

definition ledger_one_share :: Portfolio where
  "ledger_one_share = apply_fills (Portfolio_init 1000) [ex_trade BUY 1 100 1]"

definition ledger_ten_shares :: Portfolio where
  "ledger_ten_shares = apply_fills (Portfolio_init 10000) [ex_trade BUY 10 100 1]"

definition ex_order :: "string \<Rightarrow> string \<Rightarrow> OrderSide \<Rightarrow> real option \<Rightarrow> OrderStatus \<Rightarrow> Order" where
  "ex_order oid smb sd limit st =
     \<lparr>Order.id' = oid, Order.timestamp = 0, Order.trader_id = ''trader_1'',
      Order.symbol = smb, Order.side = sd, Order.quantity = 10, price = limit,
      status = st, signal_id = None, rejection_reason = None\<rparr>"

definition ex_env :: MarketEnvironment where
  "ex_env =
     \<lparr>MarketEnvironment.message_bus = \<lparr>channels = [], queue = []\<rparr>, commission_rate = 1 / 1000,
      current_time = Some 1, MarketEnvironment.current_prices = [(''AAPL'', 100)],
      MarketEnvironment.pending_orders = [], executed_trades = []\<rparr>"

definition ex_env_pending :: MarketEnvironment where
  "ex_env_pending =
     ex_env\<lparr>MarketEnvironment.pending_orders :=
              [ex_order ''o1'' ''AAPL'' BUY None APPROVED,
               ex_order ''o2'' ''AAPL'' BUY (Some 90) APPROVED,
               ex_order ''o3'' ''MSFT'' BUY None APPROVED,
               ex_order ''o4'' ''AAPL'' SELL (Some 110) APPROVED,
               ex_order ''o5'' ''AAPL'' SELL (Some 95) APPROVED]\<rparr>"

definition ex_trader :: TraderAgent where
  "ex_trader =
     (TraderAgent_init ''trader_1'' \<lparr>channels = [], queue = []\<rparr> [''AAPL''] 250000 20000)
       \<lparr>TraderAgent.pending_orders := [ex_order ''trader_1_order_1'' ''AAPL'' BUY (Some 101) PENDING],
        order_count := 1\<rparr>"

definition ex_agent :: BaseAgent where
  "ex_agent = BaseAgent_init ''risk_manager_1'' \<lparr>channels = [], queue = []\<rparr>"

definition ex_risk_manager :: RiskManagerAgent where
  "ex_risk_manager =
     RiskManagerAgent_init ''risk_manager_1'' \<lparr>channels = [], queue = []\<rparr> 1000000 50000 (5 / 100) (20 / 100)"

definition ex_trade_message :: "string \<Rightarrow> int \<Rightarrow> real \<Rightarrow> message" where
  "ex_trade_message sd qty ep =
     trade_executed ''trade_o1'' ''o1'' ''AAPL'' sd qty ep (Some 1) 1 ''trader_1''"

definition ex_broadcasts :: "(string \<times> message) list" where
  "ex_broadcasts =
     [(''trades'', ex_trade_message ''BUY'' 10 100),
      (''market_data'', market_update 2 ''AAPL'' 95 96 89 90 1000)]"

definition ex_shadow :: RiskManagerAgent where
  "ex_shadow = foldl RiskManagerAgent_deliver ex_risk_manager ex_broadcasts"




section \<open>Dicts as association lists\<close>

lemma sum_update_None:
  fixes f :: "'v \<Rightarrow> real"
  shows "map_of al k = None \<Longrightarrow>
    sum_list (map (f \<circ> snd) (AList.update k v al)) = sum_list (map (f \<circ> snd) al) + f v"
  by (induction al) (auto split: if_splits)

lemma sum_update_Some:
  fixes f :: "'v \<Rightarrow> real"
  shows "map_of al k = Some w \<Longrightarrow>
    sum_list (map (f \<circ> snd) (AList.update k v al)) = sum_list (map (f \<circ> snd) al) - f w + f v"
  by (induction al) (auto split: if_splits)

lemma delete_absent: "k \<notin> fst ` set al \<Longrightarrow> AList.delete k al = al"
  by (induction al) auto

lemma sum_delete_Some:
  fixes f :: "'v \<Rightarrow> real"
  shows "map_of al k = Some w \<Longrightarrow> distinct (map fst al) \<Longrightarrow>
    sum_list (map (f \<circ> snd) (AList.delete k al)) = sum_list (map (f \<circ> snd) al) - f w"
proof (induction al)
  case Nil
  then show ?case by simp
next
  case (Cons a al)
  obtain k' v' where a: "a = (k', v')" by (cases a)
  show ?case
  proof (cases "k' = k")
    case True
    with Cons.prems a have "k \<notin> fst ` set al" "v' = w" by auto
    then show ?thesis using a True by (simp add: delete_absent)
  next
    case False
    with Cons a show ?thesis by auto
  qed
qed

lemma list_all_update:
  "list_all P (map snd al) \<Longrightarrow> P v \<Longrightarrow> list_all P (map snd (AList.update k v al))"
  by (induction al) auto

lemma list_all_delete:
  "list_all P (map snd al) \<Longrightarrow> list_all P (map snd (AList.delete k al))"
  by (induction al) auto

lemma map_of_list_all:
  "map_of al k = Some v \<Longrightarrow> list_all P (map snd al) \<Longrightarrow> P v"
  by (induction al) (auto split: if_splits)

lemma value_minus_unrealized:
  "list_all position_ok (map snd al) \<Longrightarrow>
   sum_list (map (\<lambda>pos. real_of_int (Position.quantity pos) * current_price pos) (map snd al))
     - sum_list (map unrealized_pnl (map snd al))
   = sum_list (map (\<lambda>pos. real_of_int (Position.quantity pos) * Position.avg_cost pos) (map snd al))"
  by (induction al) (auto simp: position_ok_def algebra_simps)

lemma ledger_inv_identity:
  assumes "ledger_inv p"
  shows "Portfolio.cash p + positions_value p - initial_cash p
         = realized_pnl p + get_unrealized_pnl p - commissions_paid p"
proof -
  from assms have ok: "list_all position_ok (map snd (Portfolio.positions p))"
    and bal: "Portfolio.cash p + cost_basis p = initial_cash p + realized_pnl p - commissions_paid p"
    by (simp_all add: ledger_inv_def)
  from value_minus_unrealized [OF ok]
  have "positions_value p - get_unrealized_pnl p = cost_basis p"
    by (simp add: positions_value_def get_unrealized_pnl_def cost_basis_def)
  with bal show ?thesis by simp
qed

lemma ledger_inv_init: "ledger_inv (Portfolio_init c)"
  by (simp add: ledger_inv_def Portfolio_init_def cost_basis_def commissions_paid_def)

lemma ledger_inv_sell:
  assumes inv: "ledger_inv p"
  shows "ledger_inv (snd (execute_sell p t))"
proof (cases "map_of (Portfolio.positions p) (Trade.symbol t)")
  case None
  with inv show ?thesis by (simp add: execute_sell_def)
next
  case (Some pos)
  from inv have d: "distinct (map fst (Portfolio.positions p))"
    and ok: "list_all position_ok (map snd (Portfolio.positions p))"
    and bal: "Portfolio.cash p + cost_basis p = initial_cash p + realized_pnl p - commissions_paid p"
    by (simp_all add: ledger_inv_def)
  from map_of_list_all [OF Some ok] have pos: "position_ok pos" .
  show ?thesis
  proof (cases "Trade.quantity t > Position.quantity pos")
    case True
    with Some inv show ?thesis by (simp add: execute_sell_def)
  next
    case False
    show ?thesis
    proof (cases "Position.quantity pos - Trade.quantity t = 0")
      case True
      with Some False d ok bal show ?thesis
        by (simp add: execute_sell_def Let_def ledger_inv_def cost_basis_def commissions_paid_def
              sum_delete_Some [OF Some d] list_all_delete distinct_delete algebra_simps)
    next
      case nz: False
      with Some False d ok bal pos show ?thesis
        by (simp add: execute_sell_def Let_def ledger_inv_def cost_basis_def commissions_paid_def
              sum_update_Some [OF Some] list_all_update distinct_update position_ok_def
              algebra_simps)
    qed
  qed
qed

lemma ledger_inv_buy:
  assumes inv: "ledger_inv p" and q: "0 < Trade.quantity t" and ep: "0 < execution_price t"
  shows "ledger_inv (snd (execute_buy p t))"
proof (cases "execution_price t * real_of_int (Trade.quantity t) + commission t > Portfolio.cash p")
  case True
  with inv show ?thesis by (simp add: execute_buy_def)
next
  case afford: False
  from inv have d: "distinct (map fst (Portfolio.positions p))"
    and ok: "list_all position_ok (map snd (Portfolio.positions p))"
    and bal: "Portfolio.cash p + cost_basis p = initial_cash p + realized_pnl p - commissions_paid p"
    by (simp_all add: ledger_inv_def)
  show ?thesis
  proof (cases "map_of (Portfolio.positions p) (Trade.symbol t)")
    case None
    with afford q ep d ok bal show ?thesis
      by (simp add: execute_buy_def Let_def ledger_inv_def cost_basis_def commissions_paid_def
            sum_update_None [OF None] list_all_update distinct_update position_ok_def
            algebra_simps)
  next
    case (Some pos)
    from map_of_list_all [OF Some ok] have pos: "position_ok pos" .
    define n where "n = Position.quantity pos + Trade.quantity t"
    define basis where "basis = Position.avg_cost pos * real_of_int (Position.quantity pos)
                                + execution_price t * real_of_int (Trade.quantity t)"
    define pos' where "pos' = pos\<lparr>Position.quantity := n, Position.avg_cost := basis / real_of_int n,
                                 current_price := execution_price t,
                                 unrealized_pnl := (execution_price t - basis / real_of_int n)
                                                   * real_of_int n\<rparr>"
    from pos q have n: "0 < n" by (simp add: position_ok_def n_def)
    have res: "snd (execute_buy p t) =
        p\<lparr>Portfolio.cash := Portfolio.cash p
                - (execution_price t * real_of_int (Trade.quantity t) + commission t),
          Portfolio.positions := AList.update (Trade.symbol t) pos' (Portfolio.positions p),
          trades_history := trades_history p @ [t]\<rparr>"
      using afford Some n
      by (simp add: execute_buy_def Let_def pos'_def n_def basis_def)
    have ok': "position_ok pos'"
      using n by (simp add: position_ok_def pos'_def)
    have "real_of_int (Position.quantity pos') * Position.avg_cost pos' = basis"
      using n by (simp add: pos'_def)
    with sum_update_Some [OF Some,
        of "\<lambda>pos. real_of_int (Position.quantity pos) * Position.avg_cost pos" pos']
    have cb: "cost_basis (snd (execute_buy p t))
              = cost_basis p + execution_price t * real_of_int (Trade.quantity t)"
      by (simp add: res cost_basis_def basis_def mult.commute)
    have cp: "commissions_paid (snd (execute_buy p t)) = commissions_paid p + commission t"
      by (simp add: res commissions_paid_def)
    have "Portfolio.cash (snd (execute_buy p t)) + cost_basis (snd (execute_buy p t))
          = initial_cash (snd (execute_buy p t)) + realized_pnl (snd (execute_buy p t))
            - commissions_paid (snd (execute_buy p t))"
      using bal unfolding cb cp by (simp add: res)
    moreover have "distinct (map fst (Portfolio.positions (snd (execute_buy p t))))"
      using d by (simp add: res distinct_update)
    moreover have "list_all position_ok (map snd (Portfolio.positions (snd (execute_buy p t))))"
      using ok ok' by (simp add: res list_all_update del: map_map)
    ultimately show ?thesis unfolding ledger_inv_def by blast
  qed
qed

lemma ledger_inv_execute_trade:
  assumes "ledger_inv p" and "0 < Trade.quantity t" and "0 < execution_price t"
  shows "ledger_inv (snd (execute_trade p t))"
proof (cases "Trade.side t")
  case BUY
  with ledger_inv_buy [OF assms] show ?thesis
    by (cases "execute_buy p t") (auto simp: execute_trade_def split: sum.splits)
next
  case SELL
  with ledger_inv_sell [OF assms(1)] show ?thesis
    by (simp add: execute_trade_def)
qed

lemma ledger_inv_apply_fills:
  "ledger_inv p \<Longrightarrow> list_all (\<lambda>t. 0 < Trade.quantity t \<and> 0 < execution_price t) ts
   \<Longrightarrow> ledger_inv (apply_fills p ts)"
  by (induction ts arbitrary: p) (auto simp: ledger_inv_execute_trade)

lemma ledger_inv_update_price:
  assumes inv: "ledger_inv p"
  shows "ledger_inv (update_price p smb cp)"
proof (cases "map_of (Portfolio.positions p) smb")
  case None
  with inv show ?thesis by (simp add: update_price_def)
next
  case (Some pos)
  from inv have ok: "list_all position_ok (map snd (Portfolio.positions p))"
    by (simp add: ledger_inv_def)
  from map_of_list_all [OF Some ok] have "position_ok pos" .
  with inv Some show ?thesis
    by (simp add: update_price_def ledger_inv_def cost_basis_def commissions_paid_def
          sum_update_Some [OF Some] list_all_update distinct_update position_ok_def
          Position_update_price_def)
qed

lemma ledger_inv_update_all_prices:
  "ledger_inv p \<Longrightarrow> ledger_inv (update_all_prices p prices)"
  by (induction p prices rule: update_all_prices.induct) (auto simp: ledger_inv_update_price)

lemma ledger_inv_get_total_value:
  "ledger_inv p \<Longrightarrow> ledger_inv (snd (get_total_value p prices))"
  by (auto simp: get_total_value_def Let_def ledger_inv_update_all_prices split: option.splits)

lemma map_of_update_same: "map_of (AList.update k v al) k = Some v"
  by (simp add: update_conv')

lemma map_of_delete_same: "map_of (AList.delete k al) k = None"
  by (simp add: delete_conv')

section \<open>The accounting identity of the ledger\<close>

text \<open>
  C1, as the code has it. The claim's equation leaves the commissions out: cash pays them
  and no PnL figure records them. With the ledger's arithmetic read as exact arithmetic on
  real numbers, for a ledger built from \<open>Portfolio(initial_cash)\<close> by any sequence of fills
  passed to \<open>execute_trade\<close> (trades of positive quantity and price, as the schema
  demands), the total value, computed from the stored prices or after a refresh with
  supplied quotes, satisfies
  total value - initial cash = realized PnL + unrealized PnL - commissions of the fills in
  the history.
  The code computes in binary floating point, where each operation rounds: there the two
  sides agree up to the accumulated rounding error and not bit for bit. The fills below
  use amounts that floating point represents exactly, so they trace the same in the code.
\<close>

theorem total_value_accounts_for_commissions:
  assumes "list_all (\<lambda>t. 0 < Trade.quantity t \<and> 0 < execution_price t) ts"
    and "get_total_value (apply_fills (Portfolio_init c) ts) quotes = (total_value, p)"
  shows "total_value - initial_cash p
         = realized_pnl p + get_unrealized_pnl p - commissions_paid p"
proof -
  have "ledger_inv (apply_fills (Portfolio_init c) ts)"
    using ledger_inv_init assms(1) by (rule ledger_inv_apply_fills)
  then have "ledger_inv (snd (get_total_value (apply_fills (Portfolio_init c) ts) quotes))"
    by (rule ledger_inv_get_total_value)
  with assms(2) have "ledger_inv p" by simp
  moreover from assms(2) have "total_value = Portfolio.cash p + positions_value p"
    by (auto simp: get_total_value_def Let_def)
  ultimately show ?thesis using ledger_inv_identity [of p] by simp
qed

text \<open>
  Two fills from 10000 in cash: buy 10 at 100, sell 4 at 110, each with commission 1.
  The value is 10098: 98 = 40 realized + 60 unrealized - 2 in commissions.
\<close>

theorem total_value_accounts_for_commissions_witness:
  "list_all (\<lambda>t. 0 < Trade.quantity t \<and> 0 < execution_price t)
     [ex_trade BUY 10 100 1, ex_trade SELL 4 110 1]
   \<and> fst (get_total_value
             (apply_fills (Portfolio_init 10000) [ex_trade BUY 10 100 1, ex_trade SELL 4 110 1])
             None) = 10098
   \<and> (10098::real) - 10000 = 40 + 60 - 2"
  using total_value_accounts_for_commissions
    [of "[ex_trade BUY 10 100 1, ex_trade SELL 4 110 1]" 10000 None
        "fst (get_total_value
           (apply_fills (Portfolio_init 10000) [ex_trade BUY 10 100 1, ex_trade SELL 4 110 1])
           None)"
        "snd (get_total_value
           (apply_fills (Portfolio_init 10000) [ex_trade BUY 10 100 1, ex_trade SELL 4 110 1])
           None)"]
  by (simp add: ex_trade_def Portfolio_init_def execute_trade_def execute_buy_def
        execute_sell_def get_total_value_def positions_value_def Let_def)

text \<open>
  The claim as stated fails after one BUY of 1 share at 100 with commission 1 from 1000 in
  cash: the total value is 999, so total value - initial cash is -1, while realized and
  unrealized PnL are both 0.
\<close>

theorem total_value_identity_counterexample:
  "fst (get_total_value ledger_one_share None) - initial_cash ledger_one_share
   \<noteq> realized_pnl ledger_one_share + get_unrealized_pnl ledger_one_share"
  by (simp add: ledger_one_share_def ex_trade_def Portfolio_init_def execute_trade_def
        execute_buy_def get_total_value_def positions_value_def get_unrealized_pnl_def Let_def)

section \<open>Fills and positions\<close>

text \<open>
  C4. For a fill that \<open>execute_trade\<close> applies (it returns \<open>True\<close>) on a symbol with a
  position: a BUY adds the fill quantity to the position and sets the average cost to
  (avg_cost * quantity + execution_price * fill quantity) / (quantity + fill quantity); a
  SELL adds (execution_price - avg_cost) * fill quantity to the realized PnL, and either
  the remaining quantity is zero and the position is deleted, or the position stays with
  the quantity reduced by the fill quantity and the same average cost.
\<close>

theorem fill_updates_position:
  assumes "execute_trade p t = (True, p')"
    and "map_of (Portfolio.positions p) (Trade.symbol t) = Some pos"
  shows "(Trade.side t = BUY \<longrightarrow>
           map_option Position.quantity (map_of (Portfolio.positions p') (Trade.symbol t))
             = Some (Position.quantity pos + Trade.quantity t)
         \<and> map_option Position.avg_cost (map_of (Portfolio.positions p') (Trade.symbol t))
             = Some ((Position.avg_cost pos * real_of_int (Position.quantity pos)
                      + execution_price t * real_of_int (Trade.quantity t))
                     / real_of_int (Position.quantity pos + Trade.quantity t)))
       \<and> (Trade.side t = SELL \<longrightarrow>
           realized_pnl p' = realized_pnl p
             + (execution_price t - Position.avg_cost pos) * real_of_int (Trade.quantity t)
         \<and> (if Position.quantity pos - Trade.quantity t = 0
            then map_of (Portfolio.positions p') (Trade.symbol t) = None
            else map_option Position.quantity (map_of (Portfolio.positions p') (Trade.symbol t))
                   = Some (Position.quantity pos - Trade.quantity t)
               \<and> map_option Position.avg_cost (map_of (Portfolio.positions p') (Trade.symbol t))
                   = Some (Position.avg_cost pos)))"
  using assms
  by (auto simp: execute_trade_def execute_buy_def execute_sell_def Let_def
        map_of_update_same map_of_delete_same split: if_splits)

text \<open>
  On a position of 10 shares at 100: buying 30 at 120 gives 40 shares at 115; selling all
  10 at 110 realizes 100 and deletes the position.
\<close>

theorem fill_updates_position_witness:
  "map_option Position.quantity
     (map_of (Portfolio.positions (snd (execute_trade ledger_ten_shares (ex_trade BUY 30 120 1))))
        ''AAPL'') = Some 40
   \<and> map_option Position.avg_cost
     (map_of (Portfolio.positions (snd (execute_trade ledger_ten_shares (ex_trade BUY 30 120 1))))
        ''AAPL'') = Some 115
   \<and> realized_pnl (snd (execute_trade ledger_ten_shares (ex_trade SELL 10 110 1))) = 100
   \<and> map_of (Portfolio.positions (snd (execute_trade ledger_ten_shares (ex_trade SELL 10 110 1))))
        ''AAPL'' = None"
proof -
  define pos where "pos = \<lparr>Position.symbol = ''AAPL'', Position.quantity = 10,
    Position.avg_cost = 100, current_price = 100, unrealized_pnl = 0\<rparr>"
  have held: "map_of (Portfolio.positions ledger_ten_shares) ''AAPL'' = Some pos"
    by (simp add: ledger_ten_shares_def ex_trade_def Portfolio_init_def execute_trade_def
          execute_buy_def Let_def pos_def)
  have zero: "realized_pnl ledger_ten_shares = 0"
    by (simp add: ledger_ten_shares_def ex_trade_def Portfolio_init_def execute_trade_def
          execute_buy_def Let_def)
  have buy: "execute_trade ledger_ten_shares (ex_trade BUY 30 120 1)
             = (True, snd (execute_trade ledger_ten_shares (ex_trade BUY 30 120 1)))"
    by (simp add: ledger_ten_shares_def ex_trade_def Portfolio_init_def execute_trade_def
          execute_buy_def Let_def)
  have sell: "execute_trade ledger_ten_shares (ex_trade SELL 10 110 1)
              = (True, snd (execute_trade ledger_ten_shares (ex_trade SELL 10 110 1)))"
    by (simp add: ledger_ten_shares_def ex_trade_def Portfolio_init_def execute_trade_def
          execute_buy_def execute_sell_def Let_def)
  from fill_updates_position [OF buy, of pos] fill_updates_position [OF sell, of pos] held zero
  show ?thesis by (simp add: ex_trade_def pos_def)
qed

section \<open>Failed fills leave the ledger as it was\<close>

text \<open>
  C5. A BUY whose cost \<open>execution_price * quantity + commission\<close> exceeds the cash, and a
  SELL of more shares than the position holds or of a symbol with no position, return
  failure and leave the whole portfolio (cash, positions, realized PnL, trade history)
  unchanged.
\<close>

theorem execute_trade_insufficient:
  "(Trade.side t = BUY \<and>
      execution_price t * real_of_int (Trade.quantity t) + commission t > Portfolio.cash p
    \<or> Trade.side t = SELL \<and>
      (case map_of (Portfolio.positions p) (Trade.symbol t) of
         None \<Rightarrow> True
       | Some pos \<Rightarrow> Trade.quantity t > Position.quantity pos))
   \<Longrightarrow> execute_trade p t = (False, p)"
  by (auto simp: execute_trade_def execute_buy_def execute_sell_def Let_def
           split: option.splits)

text \<open>
  With 1000 in cash a BUY costing 1001 fails; with no position a SELL fails; with 10
  shares held a SELL of 50 fails; the ledger is the same after each.
\<close>

theorem execute_trade_insufficient_witness:
  "execute_trade (Portfolio_init 1000) (ex_trade BUY 10 100 1) = (False, Portfolio_init 1000)
   \<and> execute_trade (Portfolio_init 1000) (ex_trade SELL 10 100 1) = (False, Portfolio_init 1000)
   \<and> execute_trade ledger_ten_shares (ex_trade SELL 50 100 1) = (False, ledger_ten_shares)"
  using execute_trade_insufficient [of "ex_trade BUY 10 100 1" "Portfolio_init 1000"]
        execute_trade_insufficient [of "ex_trade SELL 10 100 1" "Portfolio_init 1000"]
        execute_trade_insufficient [of "ex_trade SELL 50 100 1" ledger_ten_shares]
  by (simp add: ex_trade_def Portfolio_init_def ledger_ten_shares_def execute_trade_def
        execute_buy_def Let_def)

section \<open>Reading the ledger\<close>

lemma update_price_frame:
  "initial_cash (update_price p smb cp) = initial_cash p
   \<and> Portfolio.cash (update_price p smb cp) = Portfolio.cash p
   \<and> realized_pnl (update_price p smb cp) = realized_pnl p
   \<and> trades_history (update_price p smb cp) = trades_history p
   \<and> map (\<lambda>(k, pos). (k, Position.symbol pos, Position.quantity pos, Position.avg_cost pos))
        (Portfolio.positions (update_price p smb cp))
     = map (\<lambda>(k, pos). (k, Position.symbol pos, Position.quantity pos, Position.avg_cost pos))
        (Portfolio.positions p)"
proof (cases "map_of (Portfolio.positions p) smb")
  case None
  then show ?thesis by (simp add: update_price_def)
next
  case (Some pos)
  have "map_of al smb = Some pos \<Longrightarrow>
        map (\<lambda>(k, pos). (k, Position.symbol pos, Position.quantity pos, Position.avg_cost pos))
          (AList.update smb (Position_update_price pos cp) al)
        = map (\<lambda>(k, pos). (k, Position.symbol pos, Position.quantity pos, Position.avg_cost pos)) al"
    for al
    by (induction al) (auto simp: Position_update_price_def split: if_splits)
  with Some show ?thesis by (simp add: update_price_def)
qed

lemma update_all_prices_frame:
  "initial_cash (update_all_prices p quotes) = initial_cash p
   \<and> Portfolio.cash (update_all_prices p quotes) = Portfolio.cash p
   \<and> realized_pnl (update_all_prices p quotes) = realized_pnl p
   \<and> trades_history (update_all_prices p quotes) = trades_history p
   \<and> map (\<lambda>(k, pos). (k, Position.symbol pos, Position.quantity pos, Position.avg_cost pos))
        (Portfolio.positions (update_all_prices p quotes))
     = map (\<lambda>(k, pos). (k, Position.symbol pos, Position.quantity pos, Position.avg_cost pos))
        (Portfolio.positions p)"
  by (induction p quotes rule: update_all_prices.induct) (simp_all add: update_price_frame)

text \<open>
  C8, as the code has it. \<open>get_total_value\<close> without quotes (\<open>None\<close> or an empty dict)
  and \<open>get_summary\<close> leave the portfolio unchanged. \<open>get_total_value\<close> with quotes has no
  separate refresh switch: it writes the quotes into the ledger (\<open>update_all_prices\<close>)
  before it sums, which changes the stored price and unrealized PnL of the quoted positions
  and leaves the cash, the realized PnL, the history and every position's symbol, quantity
  and average cost as they were.
\<close>

theorem get_total_value_refreshes_quotes:
  "snd (get_total_value p None) = p
   \<and> snd (get_total_value p (Some [])) = p
   \<and> snd (get_summary p) = p
   \<and> snd (get_total_value p (Some quotes)) = update_all_prices p quotes
   \<and> initial_cash (snd (get_total_value p (Some quotes))) = initial_cash p
   \<and> Portfolio.cash (snd (get_total_value p (Some quotes))) = Portfolio.cash p
   \<and> realized_pnl (snd (get_total_value p (Some quotes))) = realized_pnl p
   \<and> trades_history (snd (get_total_value p (Some quotes))) = trades_history p
   \<and> map (\<lambda>(k, pos). (k, Position.symbol pos, Position.quantity pos, Position.avg_cost pos))
        (Portfolio.positions (snd (get_total_value p (Some quotes))))
     = map (\<lambda>(k, pos). (k, Position.symbol pos, Position.quantity pos, Position.avg_cost pos))
        (Portfolio.positions p)"
proof -
  have "snd (get_total_value p (Some quotes)) = update_all_prices p quotes"
    by (cases quotes) (simp_all add: get_total_value_def Let_def)
  moreover have "snd (get_summary p) = p"
    by (simp add: get_summary_def get_total_value_def Let_def)
  ultimately show ?thesis
    using update_all_prices_frame [of p quotes] by (simp add: get_total_value_def Let_def)
qed

text \<open>
  With one share of AAPL held at a stored price of 100, asking for the total value at a
  quote of 110 leaves a different ledger behind: the stored price is now 110.
\<close>

theorem get_total_value_quotes_counterexample:
  "snd (get_total_value ledger_one_share (Some [(''AAPL'', 110)])) \<noteq> ledger_one_share
   \<and> map current_price (map snd (Portfolio.positions ledger_one_share)) = [100]
   \<and> map current_price (map snd (Portfolio.positions
        (snd (get_total_value ledger_one_share (Some [(''AAPL'', 110)]))))) = [110]"
  by (simp add: ledger_one_share_def ex_trade_def Portfolio_init_def execute_trade_def
        execute_buy_def get_total_value_def update_price_def Position_update_price_def Let_def)

section \<open>Orders that are not approved\<close>

text \<open>
  C10. \<open>submit_order\<close> with an order whose status is not \<open>APPROVED\<close> changes nothing: the
  pending queue and the rest of the engine are as before.
\<close>

theorem submit_order_not_approved:
  "Order.status order \<noteq> APPROVED \<Longrightarrow> submit_order env order = env"
  by (simp add: submit_order_def)

theorem submit_order_not_approved_witness:
  "Order.status (ex_order ''o1'' ''AAPL'' BUY None PENDING) \<noteq> APPROVED
   \<and> submit_order ex_env (ex_order ''o1'' ''AAPL'' BUY None PENDING) = ex_env
   \<and> MarketEnvironment.pending_orders
       (submit_order ex_env (ex_order ''o1'' ''AAPL'' BUY None REJECTED)) = []"
  using submit_order_not_approved [of "ex_order ''o1'' ''AAPL'' BUY None PENDING" ex_env]
        submit_order_not_approved [of "ex_order ''o1'' ''AAPL'' BUY None REJECTED" ex_env]
  by (simp add: ex_order_def ex_env_def)

section \<open>Admission control\<close>












section \<open>The stop-loss sweep\<close>

lemma list_all_update_twice:
  "list_all P (map snd al) \<Longrightarrow> P v \<Longrightarrow>
   list_all P (map snd (AList.update k v (AList.update k w al)))"
  by (induction al) auto

lemma list_all_delete_update:
  "list_all P (map snd al) \<Longrightarrow> list_all P (map snd (AList.delete k (AList.update k w al)))"
  by (simp add: delete_update_same list_all_delete del: map_map)

lemma check_positions_alerts:
  "list_all (\<lambda>pos. 0 < PositionDict.quantity pos \<and> 0 < PositionDict.avg_cost pos) (map snd ps)
   \<Longrightarrow> fst (check_positions rm ps) = None
     \<and> queue (BaseAgent.message_bus (snd (check_positions rm ps)))
       = queue (BaseAgent.message_bus rm)
         @ map (Pair ''stop_loss_alerts'')
             (List.map_filter
                (position_alert (RiskManagerAgent.current_prices rm) (stop_loss_percent rm))
                (map snd ps))
     \<and> current_positions (snd (check_positions rm ps)) = current_positions rm
     \<and> RiskManagerAgent.current_prices (snd (check_positions rm ps))
       = RiskManagerAgent.current_prices rm"
proof (induction ps arbitrary: rm)
  case Nil
  then show ?case by (simp add: map_filter_simps)
next
  case (Cons a ps)
  obtain key pos where a: "a = (key, pos)" by (cases a)
  from Cons.prems a have pos: "0 < PositionDict.quantity pos" "0 < PositionDict.avg_cost pos"
    and rest: "list_all (\<lambda>pos. 0 < PositionDict.quantity pos \<and> 0 < PositionDict.avg_cost pos)
                 (map snd ps)"
    by simp_all
  note IH = Cons.IH [OF rest]
  show ?case
  proof (cases "position_alert (RiskManagerAgent.current_prices rm) (stop_loss_percent rm) pos")
    case None
    with pos a IH [of rm] show ?thesis
      by (auto simp: position_alert_def map_filter_simps split: option.splits if_splits)
  next
    case (Some alert)
    then obtain cp where cp: "map_of (RiskManagerAgent.current_prices rm) (PositionDict.symbol pos) = Some cp"
      and loss: "(PositionDict.avg_cost pos - cp) / PositionDict.avg_cost pos > stop_loss_percent rm"
      and alert: "alert = stop_loss (PositionDict.trader_id pos) (PositionDict.symbol pos)
                       (PositionDict.quantity pos) (PositionDict.avg_cost pos) cp
                       ((PositionDict.avg_cost pos - cp) / PositionDict.avg_cost pos)"
      by (auto simp: position_alert_def split: option.splits if_splits)
    define rm2 where "rm2 = publish (rm\<lparr>logger := logger rm @ [Warning ''STOP LOSS triggered'']\<rparr>)
                              ''stop_loss_alerts'' alert"
    have step: "check_positions rm (a # ps) = check_positions rm2 ps"
      using a cp loss pos by (simp add: rm2_def alert Let_def)
    have same: "RiskManagerAgent.current_prices rm2 = RiskManagerAgent.current_prices rm"
      "stop_loss_percent rm2 = stop_loss_percent rm"
      "current_positions rm2 = current_positions rm"
      "queue (BaseAgent.message_bus rm2) = queue (BaseAgent.message_bus rm) @ [(''stop_loss_alerts'', alert)]"
      by (simp_all add: rm2_def publish_def bus_publish_def)
    from IH [of rm2] Some show ?thesis
      unfolding step same by (simp add: a map_filter_simps)
  qed
qed

lemma shadow_ok_init: "shadow_ok (RiskManagerAgent_init aid bus ipv mps slp mpr)"
  by (simp add: shadow_ok_def RiskManagerAgent_init_def)

lemma shadow_ok_market_update:
  "shadow_ok rm \<Longrightarrow> shadow_ok (RiskManagerAgent_on_market_update rm m)"
  by (cases m) (simp_all add: shadow_ok_def RiskManagerAgent_on_market_update_def)

lemma shadow_ok_order_request:
  "shadow_ok rm \<Longrightarrow> shadow_ok (on_order_request rm m)"
  by (cases m) (simp_all add: shadow_ok_def on_order_request_def publish_def Let_def
      split: prod.splits)

lemma shadow_ok_trade_executed:
  assumes ok: "shadow_ok rm" and sd: "sd = ''BUY'' \<or> sd = ''SELL''"
    and qty: "0 < qty" and ep: "0 < ep"
  shows "shadow_ok (RiskManagerAgent_on_trade_executed rm
                      (trade_executed trid oid smb sd qty ep comm ts tid))"
proof -
  let ?P = "\<lambda>pos. 0 < PositionDict.quantity pos \<and> 0 < PositionDict.avg_cost pos"
  from ok have all: "list_all ?P (map snd (current_positions rm))"
    by (simp add: shadow_ok_def)
  show ?thesis
  proof (cases "map_of (current_positions rm) (trader_key tid smb)")
    case None
    from sd show ?thesis
    proof
      assume "sd = ''BUY''"
      with None all qty ep show ?thesis
        by (simp add: RiskManagerAgent_on_trade_executed_def shadow_ok_def Let_def
              map_of_update_same list_all_update_twice list_all_update del: map_map)
    next
      assume "sd = ''SELL''"
      with None all qty show ?thesis
        by (simp add: RiskManagerAgent_on_trade_executed_def shadow_ok_def Let_def
              map_of_update_same list_all_delete_update list_all_delete del: map_map)
    qed
  next
    case (Some pos)
    from map_of_list_all [OF Some all] have pos: "0 < PositionDict.quantity pos"
      "0 < PositionDict.avg_cost pos" by simp_all
    from sd show ?thesis
    proof
      assume buy: "sd = ''BUY''"
      from pos qty ep have
        "0 < real_of_int (PositionDict.quantity pos) * PositionDict.avg_cost pos + real_of_int qty * ep"
        by (simp add: add_pos_pos)
      moreover from pos qty have "0 < real_of_int (PositionDict.quantity pos + qty)" by simp
      ultimately have
        "0 < (real_of_int (PositionDict.quantity pos) * PositionDict.avg_cost pos + real_of_int qty * ep)
             / real_of_int (PositionDict.quantity pos + qty)"
        by (rule divide_pos_pos)
      with buy Some all pos qty show ?thesis
        by (simp add: RiskManagerAgent_on_trade_executed_def shadow_ok_def Let_def
              list_all_update del: map_map)
    next
      assume "sd = ''SELL''"
      with Some all pos show ?thesis
        by (simp add: RiskManagerAgent_on_trade_executed_def shadow_ok_def Let_def
              list_all_update list_all_delete del: map_map)
    qed
  qed
qed

lemma shadow_ok_deliver:
  "shadow_ok rm \<Longrightarrow> broadcast_ok (snd cm) \<Longrightarrow> shadow_ok (RiskManagerAgent_deliver rm cm)"
proof (cases cm)
  case (Pair channel m)
  assume ok: "shadow_ok rm" and wf: "broadcast_ok (snd cm)"
  show ?thesis
  proof (cases "channel = ''trades''")
    case True
    with Pair ok wf show ?thesis
      by (cases m) (simp_all add: shadow_ok_trade_executed,
                    simp_all add: RiskManagerAgent_on_trade_executed_def)
  next
    case False
    with Pair ok show ?thesis
      by (simp add: shadow_ok_order_request shadow_ok_market_update)
  qed
qed

lemma shadow_ok_foldl:
  "shadow_ok rm \<Longrightarrow> list_all (\<lambda>cm. broadcast_ok (snd cm)) ms
   \<Longrightarrow> shadow_ok (foldl RiskManagerAgent_deliver rm ms)"
  by (induction ms arbitrary: rm) (simp_all add: shadow_ok_deliver)

text \<open>
  C7. On a shadow state rebuilt from any sequence of broadcasts (trades of positive
  quantity and price), one stop-loss sweep ends without error and publishes on
  \<open>stop_loss_alerts\<close> exactly one alert, with the trader, symbol, quantity, average cost,
  current price and loss percent, for each shadowed position whose symbol has a known
  price and whose loss \<open>(avg_cost - current_price) / avg_cost\<close> exceeds the threshold, and
  nothing else.
\<close>

theorem stop_loss_sweep_alerts:
  assumes "list_all (\<lambda>cm. broadcast_ok (snd cm)) ms"
    and "rm = foldl RiskManagerAgent_deliver (RiskManagerAgent_init aid bus ipv mps slp mpr) ms"
  shows "fst (check_stop_losses rm) = None
     \<and> queue (BaseAgent.message_bus (snd (check_stop_losses rm)))
       = queue (BaseAgent.message_bus rm) @ map (Pair ''stop_loss_alerts'') (stop_loss_alerts rm)"
proof -
  have "shadow_ok rm"
    unfolding assms(2) using shadow_ok_init assms(1) by (rule shadow_ok_foldl)
  with check_positions_alerts [of "current_positions rm" rm] show ?thesis
    by (simp add: check_stop_losses_def stop_loss_alerts_def shadow_ok_def)
qed

text \<open>
  A position bought at 100 and now priced at 90, with a threshold of 5 percent: the sweep
  publishes one alert, with loss percent 0.10.
\<close>

theorem stop_loss_sweep_alerts_witness:
  "list_all (\<lambda>cm. broadcast_ok (snd cm)) ex_broadcasts
   \<and> map snd (current_positions ex_shadow)
     = [\<lparr>PositionDict.trader_id = ''trader_1'', PositionDict.symbol = ''AAPL'',
         PositionDict.quantity = 10, PositionDict.avg_cost = 100\<rparr>]
   \<and> RiskManagerAgent.current_prices ex_shadow = [(''AAPL'', 90)]
   \<and> stop_loss_percent ex_shadow = 5 / 100
   \<and> fst (check_stop_losses ex_shadow) = None
   \<and> queue (BaseAgent.message_bus (snd (check_stop_losses ex_shadow)))
     = [(''stop_loss_alerts'', stop_loss ''trader_1'' ''AAPL'' 10 100 90 (10 / 100))]"
proof -
  have st: "current_positions ex_shadow
      = [(''trader_1_AAPL'', \<lparr>PositionDict.trader_id = ''trader_1'', PositionDict.symbol = ''AAPL'',
         PositionDict.quantity = 10, PositionDict.avg_cost = 100\<rparr>)]"
    "RiskManagerAgent.current_prices ex_shadow = [(''AAPL'', 90)]"
    "stop_loss_percent ex_shadow = 5 / 100"
    "queue (BaseAgent.message_bus ex_shadow) = []"
    by (simp_all add: ex_shadow_def ex_broadcasts_def ex_risk_manager_def RiskManagerAgent_init_def
          ex_trade_message_def RiskManagerAgent_on_trade_executed_def
          RiskManagerAgent_on_market_update_def trader_key_def get_trader_cash_def Let_def)
  have wf: "list_all (\<lambda>cm. broadcast_ok (snd cm)) ex_broadcasts"
    by (simp add: ex_broadcasts_def ex_trade_message_def)
  have rm: "ex_shadow = foldl RiskManagerAgent_deliver
      (RiskManagerAgent_init ''risk_manager_1'' \<lparr>channels = [], queue = []\<rparr> 1000000 50000
         (5 / 100) (20 / 100)) ex_broadcasts"
    by (simp add: ex_shadow_def ex_risk_manager_def)
  from stop_loss_sweep_alerts [OF wf rm] wf show ?thesis
    by (simp add: st stop_loss_alerts_def position_alert_def map_filter_simps)
qed

section \<open>The execution sweep\<close>

lemma map_of_list_all_pair:
  "map_of al k = Some v \<Longrightarrow> list_all (\<lambda>(k, v). P v) al \<Longrightarrow> P v"
  by (induction al) (auto split: if_splits)

lemma sweep_orders_fills:
  assumes "current_time env = Some now" and "0 \<le> commission_rate env"
    and "list_all (\<lambda>(s, cp). 0 < cp) (MarketEnvironment.current_prices env)"
    and "list_all (\<lambda>ord. 0 < Order.quantity ord) rest"
    and "MarketEnvironment.pending_orders env = kept @ rest"
    and "list_all (\<lambda>ord. order_fill now (commission_rate env)
                          (MarketEnvironment.current_prices env) ord = None) kept"
  shows "sweep_orders env rest =
     (None,
      env\<lparr>executed_trades := executed_trades env
             @ List.map_filter (order_fill now (commission_rate env)
                                  (MarketEnvironment.current_prices env)) rest,
          MarketEnvironment.pending_orders := kept
             @ filter (\<lambda>ord. order_fill now (commission_rate env)
                                (MarketEnvironment.current_prices env) ord = None) rest,
          MarketEnvironment.message_bus := (MarketEnvironment.message_bus env)
             \<lparr>queue := queue (MarketEnvironment.message_bus env)
                  @ map (\<lambda>t. (''trades'', trade_message t))
                      (List.map_filter (order_fill now (commission_rate env)
                                          (MarketEnvironment.current_prices env)) rest)\<rparr>\<rparr>)"
  using assms
proof (induction rest arbitrary: env kept)
  case Nil
  then show ?case by (simp add: map_filter_simps)
next
  case (Cons ord rest)
  let ?f = "order_fill now (commission_rate env) (MarketEnvironment.current_prices env)"
  from Cons.prems(4) have q: "0 < Order.quantity ord"
    and rest: "list_all (\<lambda>ord. 0 < Order.quantity ord) rest" by simp_all
  show ?case
  proof (cases "?f ord")
    case None
    then have step: "sweep_orders env (ord # rest) = sweep_orders env rest"
      by (auto simp: order_fill_def split: option.splits if_splits)
    have pend: "MarketEnvironment.pending_orders env = (kept @ [ord]) @ rest"
      using Cons.prems(5) by simp
    have kept: "list_all (\<lambda>ord. ?f ord = None) (kept @ [ord])"
      using Cons.prems(6) None by simp
    from Cons.IH [OF Cons.prems(1,2,3) rest pend kept] None show ?thesis
      unfolding step by (simp add: map_filter_simps)
  next
    case (Some trade)
    then obtain ep where ep: "map_of (MarketEnvironment.current_prices env) (Order.symbol ord) = Some ep"
      and nolimit: "\<not> (case Order.price ord of
                None \<Rightarrow> False
              | Some limit \<Rightarrow> Order.side ord = BUY \<and> ep > limit
                             \<or> Order.side ord = SELL \<and> ep < limit)"
      and trade: "trade = \<lparr>Trade.id' = ''trade_'' @ Order.id' ord, Trade.timestamp = now,
                     order_id = Order.id' ord, Trade.symbol = Order.symbol ord,
                     Trade.side = Order.side ord, Trade.quantity = Order.quantity ord,
                     execution_price = ep,
                     commission = ep * real_of_int (Order.quantity ord) * commission_rate env,
                     Trade.trader_id = Order.trader_id ord\<rparr>"
      by (auto simp: order_fill_def split: option.splits if_splits)
    from map_of_list_all_pair [OF ep Cons.prems(3)] have eppos: "0 < ep" .
    with q Cons.prems(2) have comm: "\<not> ep * real_of_int (Order.quantity ord) * commission_rate env < 0"
      by (simp add: not_less)
    have new: "Trade_new (''trade_'' @ Order.id' ord) (current_time env) (Order.id' ord)
                    (Order.symbol ord) (Order.side ord) (Order.quantity ord) ep
                    (ep * real_of_int (Order.quantity ord) * commission_rate env)
                    (Order.trader_id ord) = Inr trade"
      using Cons.prems(1) q eppos comm by (simp add: Trade_new_def trade)
    have notkept: "ord \<notin> set kept"
      using Cons.prems(6) Some by (auto simp: list_all_iff)
    define env3 where "env3 = env\<lparr>executed_trades := executed_trades env @ [trade],
        MarketEnvironment.pending_orders := kept @ rest,
        MarketEnvironment.message_bus :=
          bus_publish (MarketEnvironment.message_bus env) ''trades'' (trade_message trade)\<rparr>"
    have step: "sweep_orders env (ord # rest) = sweep_orders env3 rest"
      using ep nolimit new notkept Cons.prems(5)
      by (simp add: env3_def Let_def remove1_append)
    have same: "current_time env3 = Some now" "commission_rate env3 = commission_rate env"
      "MarketEnvironment.current_prices env3 = MarketEnvironment.current_prices env"
      "MarketEnvironment.pending_orders env3 = kept @ rest"
      using Cons.prems(1) by (simp_all add: env3_def)
    have IH: "sweep_orders env3 rest = (None,
      env3\<lparr>executed_trades := executed_trades env3 @ List.map_filter ?f rest,
          MarketEnvironment.pending_orders := kept @ filter (\<lambda>ord. ?f ord = None) rest,
          MarketEnvironment.message_bus := (MarketEnvironment.message_bus env3)
             \<lparr>queue := queue (MarketEnvironment.message_bus env3)
                  @ map (\<lambda>t. (''trades'', trade_message t)) (List.map_filter ?f rest)\<rparr>\<rparr>)"
      using Cons.IH [of env3 kept] Cons.prems(2,3,6) rest same by simp
    show ?thesis
      unfolding step IH using Some
      by (simp add: env3_def bus_publish_def map_filter_simps)
  qed
qed

text \<open>
  C6. With the clock set, a commission rate that is not negative, positive prices and
  pending orders of positive quantity, one sweep raises nothing and: every pending order
  with no fill (no current price for its symbol, or a limit BUY priced above its limit, or
  a limit SELL priced below its limit) stays in the pending queue, unchanged and in order;
  every other order yields one trade at the current price with
  \<open>commission = execution_price * quantity * commission_rate\<close>, appended to the executed
  trades, leaves the queue, and has its trade published on \<open>trades\<close> as a
  \<open>trade_executed\<close> message carrying every field of the trade.
\<close>

theorem execute_pending_orders_fills:
  assumes "current_time env = Some now" and "0 \<le> commission_rate env"
    and "list_all (\<lambda>(s, cp). 0 < cp) (MarketEnvironment.current_prices env)"
    and "list_all (\<lambda>ord. 0 < Order.quantity ord) (MarketEnvironment.pending_orders env)"
  shows "execute_pending_orders env =
     (None,
      env\<lparr>executed_trades := executed_trades env
             @ List.map_filter (order_fill now (commission_rate env)
                                  (MarketEnvironment.current_prices env))
                 (MarketEnvironment.pending_orders env),
          MarketEnvironment.pending_orders :=
             filter (\<lambda>ord. order_fill now (commission_rate env)
                              (MarketEnvironment.current_prices env) ord = None)
               (MarketEnvironment.pending_orders env),
          MarketEnvironment.message_bus := (MarketEnvironment.message_bus env)
             \<lparr>queue := queue (MarketEnvironment.message_bus env)
                  @ map fill_broadcast
                      (List.map_filter (order_fill now (commission_rate env)
                                          (MarketEnvironment.current_prices env))
                         (MarketEnvironment.pending_orders env))\<rparr>\<rparr>)"
proof -
  have "(\<lambda>t. (''trades'', trade_message t)) = fill_broadcast"
    by (rule ext) (simp add: fill_broadcast_def trade_message_def split: OrderSide.splits)
  with sweep_orders_fills [OF assms, of "[]"] show ?thesis
    by (simp add: execute_pending_orders_def)
qed

text \<open>
  AAPL at 100, rate 0.001, five pending orders of 10 shares: a market BUY (filled,
  commission 1), a BUY limited to 90 (kept), a BUY of MSFT, which has no price (kept), a
  SELL limited to 110 (kept) and a SELL limited to 95 (filled). The two fills are on the
  queue of \<open>trades\<close> with all their fields.
\<close>

theorem execute_pending_orders_fills_witness:
  "current_time ex_env_pending = Some 1 \<and> 0 \<le> commission_rate ex_env_pending
   \<and> list_all (\<lambda>(s, cp). 0 < cp) (MarketEnvironment.current_prices ex_env_pending)
   \<and> list_all (\<lambda>ord. 0 < Order.quantity ord) (MarketEnvironment.pending_orders ex_env_pending)
   \<and> fst (execute_pending_orders ex_env_pending) = None
   \<and> MarketEnvironment.pending_orders (snd (execute_pending_orders ex_env_pending))
     = [ex_order ''o2'' ''AAPL'' BUY (Some 90) APPROVED,
        ex_order ''o3'' ''MSFT'' BUY None APPROVED,
        ex_order ''o4'' ''AAPL'' SELL (Some 110) APPROVED]
   \<and> map (\<lambda>t. (order_id t, execution_price t, commission t))
        (executed_trades (snd (execute_pending_orders ex_env_pending)))
     = [(''o1'', 100, 1), (''o5'', 100, 1)]
   \<and> map fst (queue (MarketEnvironment.message_bus (snd (execute_pending_orders ex_env_pending))))
     = [''trades'', ''trades'']
   \<and> queue (MarketEnvironment.message_bus (snd (execute_pending_orders ex_env_pending)))
     = [(''trades'', trade_executed ''trade_o1'' ''o1'' ''AAPL'' ''BUY'' 10 100 (Some 1) 1 ''trader_1''),
        (''trades'', trade_executed ''trade_o5'' ''o5'' ''AAPL'' ''SELL'' 10 100 (Some 1) 1 ''trader_1'')]"
proof -
  have h1: "current_time ex_env_pending = Some 1"
    and h2: "0 \<le> commission_rate ex_env_pending"
    and h3: "list_all (\<lambda>(s, cp). 0 < cp) (MarketEnvironment.current_prices ex_env_pending)"
    and h4: "list_all (\<lambda>ord. 0 < Order.quantity ord)
               (MarketEnvironment.pending_orders ex_env_pending)"
    by (simp_all add: ex_env_pending_def ex_env_def ex_order_def)
  from execute_pending_orders_fills [OF h1 h2 h3 h4] h1 h2 h3 h4 show ?thesis
    by (simp add: ex_env_pending_def ex_env_def ex_order_def order_fill_def fill_broadcast_def
          map_filter_simps)
qed

section \<open>The agent lifecycle\<close>

lemma setup_subscriptions_frame:
  "event_loop (setup_subscriptions subs a) = event_loop a
   \<and> running (setup_subscriptions subs a) = running a"
  by (induction subs a rule: setup_subscriptions.induct) (simp_all add: subscribe_def)

lemma running_start: "running (start subs a)"
  by (simp add: start_def Let_def setup_subscriptions_frame)

lemma start_when_running:
  "running a \<Longrightarrow> start subs a = a\<lparr>logger := logger a @ [Warning ''Agent already running'']\<rparr>"
  by (simp add: start_def)

lemma active_loops_first_start:
  "\<not> running a \<Longrightarrow> active_loops (start subs a) = active_loops a + 1"
  by (simp add: start_def Let_def active_loops_def setup_subscriptions_frame)

lemma stop_twice:
  "fst (stop (snd (stop a))) = fst (stop a)
   \<and> snd (stop (snd (stop a))) = (snd (stop a))\<lparr>logger := logger (snd (stop (snd (stop a))))\<rparr>"
  by (cases "event_loop a ! the (task a)")
     (auto simp: stop_def Let_def cancel_def split: option.splits)

text \<open>
  C9. \<open>start\<close> on a running agent only logs the warning: the subscriber registry, the
  task store and every other field stay as they were, so a second \<open>start\<close> adds no
  subscription and no processing loop, and two \<open>start\<close>s of a stopped agent leave one
  loop more than before (one loop for a fresh agent). A second \<open>stop\<close> returns what the
  first returned and leaves the agent as the first left it, up to the "stopped" line it
  logs again.
\<close>

theorem start_stop_idempotent:
  "(running a \<longrightarrow> start subs a = a\<lparr>logger := logger a @ [Warning ''Agent already running'']\<rparr>)
   \<and> start subs (start subs a)
     = (start subs a)\<lparr>logger := logger (start subs a) @ [Warning ''Agent already running'']\<rparr>
   \<and> BaseAgent.message_bus (start subs (start subs a)) = BaseAgent.message_bus (start subs a)
   \<and> active_loops (start subs (start subs a)) = active_loops (start subs a)
   \<and> (\<not> running a \<longrightarrow> active_loops (start subs (start subs a)) = active_loops a + 1)
   \<and> fst (stop (snd (stop a))) = fst (stop a)
   \<and> snd (stop (snd (stop a))) = (snd (stop a))\<lparr>logger := logger (snd (stop (snd (stop a))))\<rparr>"
proof -
  have twice: "start subs (start subs a)
     = (start subs a)\<lparr>logger := logger (start subs a) @ [Warning ''Agent already running'']\<rparr>"
    using running_start [of subs a] by (rule start_when_running)
  have bus: "BaseAgent.message_bus (start subs (start subs a)) = BaseAgent.message_bus (start subs a)"
    by (subst twice) simp
  have loops: "active_loops (start subs (start subs a)) = active_loops (start subs a)"
    by (subst twice) (simp add: active_loops_def)
  from start_when_running [of a subs] twice bus loops active_loops_first_start [of a subs]
    stop_twice [of a]
  show ?thesis by simp
qed

text \<open>
  A fresh agent with the risk manager's three subscriptions, started twice: one running
  loop, one callback per channel; stopped twice: no running loop.
\<close>

theorem start_stop_idempotent_witness:
  "\<not> running ex_agent
   \<and> running (start RiskManagerAgent_subscriptions ex_agent)
   \<and> active_loops (start RiskManagerAgent_subscriptions
                     (start RiskManagerAgent_subscriptions ex_agent)) = 1
   \<and> channels (BaseAgent.message_bus (start RiskManagerAgent_subscriptions
                     (start RiskManagerAgent_subscriptions ex_agent)))
     = [(''orders'', [''_on_order_request'']), (''market_data'', [''_on_market_update'']),
        (''trades'', [''_on_trade_executed''])]
   \<and> active_loops (snd (stop (snd (stop (start RiskManagerAgent_subscriptions ex_agent))))) = 0
   \<and> fst (stop (snd (stop (start RiskManagerAgent_subscriptions ex_agent)))) = None"
proof -
  define started where "started = start RiskManagerAgent_subscriptions ex_agent"
  have nr: "\<not> running ex_agent" "active_loops ex_agent = 0"
    by (simp_all add: ex_agent_def BaseAgent_init_def active_loops_def)
  have ch: "channels (BaseAgent.message_bus started)
     = [(''orders'', [''_on_order_request'']), (''market_data'', [''_on_market_update'']),
        (''trades'', [''_on_trade_executed''])]"
    unfolding started_def by code_simp
  have tk: "task started = Some 0" "event_loop started = [Running]"
    unfolding started_def by code_simp+
  have s1: "fst (stop started) = None" "event_loop (snd (stop started)) = [Cancelled]"
    by (simp_all add: stop_def tk cancel_def Let_def)
  note T1 = start_stop_idempotent [of ex_agent RiskManagerAgent_subscriptions,
      folded started_def]
  note T2 = start_stop_idempotent [of started RiskManagerAgent_subscriptions]
  have bus: "BaseAgent.message_bus (start RiskManagerAgent_subscriptions started)
             = BaseAgent.message_bus started"
    using T1 by blast
  have "\<not> running ex_agent \<longrightarrow>
        active_loops (start RiskManagerAgent_subscriptions started) = active_loops ex_agent + 1"
    using T1 by blast
  with nr have loops: "active_loops (start RiskManagerAgent_subscriptions started) = 1"
    by simp
  have f2: "fst (stop (snd (stop started))) = fst (stop started)"
    using T2 by blast
  have "snd (stop (snd (stop started)))
        = (snd (stop started))\<lparr>logger := logger (snd (stop (snd (stop started))))\<rparr>"
    using T2 by blast
  then have "event_loop (snd (stop (snd (stop started))))
             = event_loop ((snd (stop started))\<lparr>logger := logger (snd (stop (snd (stop started))))\<rparr>)"
    by (rule arg_cong)
  then have e2: "event_loop (snd (stop (snd (stop started)))) = [Cancelled]"
    by (simp add: s1)
  have r: "running started" unfolding started_def by (rule running_start)
  have z: "active_loops (snd (stop (snd (stop started)))) = 0"
    by (simp add: active_loops_def e2)
  from nr(1) r loops bus ch z f2 s1(1) show ?thesis
    unfolding started_def [symmetric] by simp
qed

section \<open>Risk decisions at the trader\<close>

text \<open>
  C3, at the input where the code leaves the status machine. An order stays in
  \<open>pending_orders\<close> after its approval, and \<open>_on_risk_decision\<close> does not look at the
  status of the order it finds. A second decision for the same order id therefore decides
  the approved order again: a rejection takes it from \<open>APPROVED\<close> to \<open>REJECTED\<close>, which
  is no edge of the machine, and a second approval publishes the order on
  \<open>approved_orders\<close> a second time.
\<close>

theorem on_risk_decision_redecides_approved_order:
  "Order.status (hd (TraderAgent.pending_orders ex_trader)) = PENDING
   \<and> decided_statuses ex_trader
       [risk_decision ''trader_1_order_1'' (Some True) (Some (Literal ''Order approved'')),
        risk_decision ''trader_1_order_1'' (Some False) (Some (InsufficientCash 1000 900))]
     = [APPROVED, REJECTED]
   \<and> \<not> status_edge APPROVED REJECTED
   \<and> decided_statuses ex_trader
       [risk_decision ''trader_1_order_1'' (Some True) (Some (Literal ''Order approved'')),
        risk_decision ''trader_1_order_1'' (Some True) (Some (Literal ''Order approved''))]
     = [APPROVED, APPROVED]
   \<and> \<not> status_edge APPROVED APPROVED
   \<and> queue (BaseAgent.message_bus
        (snd (on_risk_decision
               (snd (on_risk_decision ex_trader
                  (risk_decision ''trader_1_order_1'' (Some True) (Some (Literal ''Order approved'')))))
               (risk_decision ''trader_1_order_1'' (Some True) (Some (Literal ''Order approved''))))))
     = [(''approved_orders'', order_approved ''trader_1_order_1'' ''trader_1'' ''AAPL'' ''BUY'' 10 (Some 101)),
        (''approved_orders'', order_approved ''trader_1_order_1'' ''trader_1'' ''AAPL'' ''BUY'' 10 (Some 101))]"
  by (simp add: ex_trader_def TraderAgent_init_def ex_order_def on_risk_decision_def
        publish_def bus_publish_def Let_def)

end
